theory Spec2Isabelle
  imports Main "HOL-Library.Word" "HOL-Library.AList"
begin

section \<open>Strings and the string helpers\<close>

text \<open>
  A JavaScript string is a sequence of 16-bit code units; \<open>charCodeAt\<close> reads one of
  them. Content strings are therefore lists of 16-bit words. Property names (surface
  ids, attribute names, element ids) are only compared and concatenated, so they are
  plain \<open>string\<close>s. A trailing underscore of a source name (\<open>surfaces_\<close>,
  \<open>renderSurfacesContent_\<close>) is dropped, since a constant cannot end in one.
\<close>

type_synonym jsstring = "16 word list"

definition js :: "string \<Rightarrow> jsstring" where
  \<comment> \<open>a literal of the source, as code units\<close>
  "js s = map (\<lambda>c. of_nat (of_char c)) s"

subsection \<open>\<open>string.collapseBreakingSpaces\<close>\<close>

text \<open>
  \<^verbatim>\<open>str.replace(/[\t\r\n ]+/g, ' ').replace(/^[\t\r\n ]+|[\t\r\n ]+$/g, '')\<close>

  The character class holds tab (9), carriage return (13), newline (10) and space (32).
  The first replacement scans from the left; where the class matches, the greedy \<open>+\<close>
  takes the whole run, one space is emitted and the scan goes on after the run.
  The second replacement has no \<open>m\<close> flag, so \<open>^\<close> matches at offset 0 only and
  \<open>$\<close> at the end only: the first alternative deletes the run the string starts with,
  the second deletes a run that reaches the end of the string.
\<close>

definition isBreakingSpace :: "16 word \<Rightarrow> bool" where
  "isBreakingSpace c \<longleftrightarrow> c = 9 \<or> c = 13 \<or> c = 10 \<or> c = 32"

function replaceRuns :: "jsstring \<Rightarrow> jsstring" where
  "replaceRuns [] = []"
| "replaceRuns (c # cs) =
     (if isBreakingSpace c then 32 # replaceRuns (dropWhile isBreakingSpace cs)
      else c # replaceRuns cs)"
  by pat_completeness auto
termination
  by (relation "measure length") (auto simp: less_Suc_eq_le length_dropWhile_le)

fun removeTrailingRun :: "jsstring \<Rightarrow> jsstring" where
  "removeTrailingRun [] = []"
| "removeTrailingRun (c # cs) =
     (if list_all isBreakingSpace (c # cs) then [] else c # removeTrailingRun cs)"

definition collapseBreakingSpaces :: "jsstring \<Rightarrow> jsstring" where
  "collapseBreakingSpaces str =
     removeTrailingRun (dropWhile isBreakingSpace (replaceRuns str))"

text \<open>
  What the description of the normalizer says, written independently of the two
  replacements: the words of a string are its maximal runs of characters that are not
  breaking spaces, and the normal form is the words joined by single spaces.
\<close>

function wordsOf :: "jsstring \<Rightarrow> jsstring list" where
  "wordsOf [] = []"
| "wordsOf (c # cs) =
     (if isBreakingSpace c then wordsOf cs
      else (c # takeWhile (\<lambda>x. \<not> isBreakingSpace x) cs)
             # wordsOf (dropWhile (\<lambda>x. \<not> isBreakingSpace x) cs))"
  by pat_completeness auto
termination
  by (relation "measure length") (auto simp: less_Suc_eq_le length_dropWhile_le)

fun joinWithSpace :: "jsstring list \<Rightarrow> jsstring" where
  "joinWithSpace [] = []"
| "joinWithSpace [w] = w"
| "joinWithSpace (w # v # ws) = w @ 32 # joinWithSpace (v # ws)"

subsection \<open>\<open>string.hashCode\<close>\<close>

text \<open>
  \<^verbatim>\<open>hash = 31 * hash + val.charCodeAt(i); hash %= 0x100000000;\<close>

  The numbers are doubles, and every intermediate value is a non-negative integer below
  \<open>31 * 2^32 + 2^16\<close>, far below \<open>2^53\<close>: the arithmetic is exact and \<open>%\<close> on
  non-negative operands is \<open>mod\<close>.
\<close>

definition hashStep :: "int \<Rightarrow> 16 word \<Rightarrow> int" where
  "hashStep hash c = (31 * hash + uint c) mod 4294967296"

definition hashCode :: "jsstring \<Rightarrow> int" where
  "hashCode val = foldl hashStep 0 val"

section \<open>Values, the document and the trace of effects\<close>

text \<open>
  Surface content and attribute values are JavaScript values: \<open>undefined\<close>, \<open>null\<close>,
  a string, or some other object, which the component never looks into.
\<close>

datatype jsvalue = Undefined | Null | Str jsstring | Obj nat

text \<open>
  Modelled from the spec: \<open>core.isDefAndNotNull\<close> and \<open>core.isString\<close>, helpers of
  the \<open>core\<close> module: content counts as absent when it is undefined or null, and the
  fingerprint is a hash exactly for strings.
\<close>

definition isDefAndNotNull :: "jsvalue \<Rightarrow> bool" where
  "isDefAndNotNull v \<longleftrightarrow> v \<noteq> Undefined \<and> v \<noteq> Null"

fun isString :: "jsvalue \<Rightarrow> bool" where
  "isString (Str s) = True"
| "isString v = False"

text \<open>
  The errors a call can throw: the component's own \<open>Component already rendered\<close>, the
  \<open>TypeError\<close> of a property access on \<open>null\<close> or \<open>undefined\<close>, and the exceptions
  of the document (\<open>insertBefore\<close>, \<open>querySelector\<close>, \<open>createElement\<close>).
\<close>

datatype error =
    ALREADY_RENDERED
  | TypeError
  | NotFoundError
  | HierarchyRequestError
  | SyntaxError
  | InvalidCharacterError

text \<open>
  The document is a store of element nodes. Every node reference denotes a node; the
  nodes from \<open>nextNode\<close> on are not allocated yet. A node keeps its tag name, its
  \<open>id\<close> attribute, its parent and its children; a child is an element or content that
  \<open>dom.append\<close> put there.

  Three things are the browser's and are left open as fields of the document: whether
  it is in quirks mode (where an id selector ignores the case of ASCII letters), what
  \<open>querySelector\<close> does with a selector that is more than \<open>#\<close> and a plain
  identifier, and which tag names other than plain ones \<open>createElement\<close> accepts.
\<close>

type_synonym nid = nat

datatype child = ChildElement nid | ChildContent jsvalue

record node =
  tagName :: string
  elemId :: string
  parentNode :: "nid option"
  childNodes :: "child list"

record dom =
  nodes :: "nid \<Rightarrow> node"
  nextNode :: nid
  documentNode :: nid
  body :: nid
  quirksMode :: bool
  selectorEngine :: "(nid \<Rightarrow> node) \<Rightarrow> nid \<Rightarrow> string \<Rightarrow> error + nid option"
  acceptsTagName :: "string \<Rightarrow> bool"

definition blankNode :: "string \<Rightarrow> node" where
  "blankNode tag = \<lparr>tagName = tag, elemId = [], parentNode = None, childNodes = []\<rparr>"

definition asciiLetter :: "char \<Rightarrow> bool" where
  "asciiLetter ch \<longleftrightarrow>
     (65 \<le> (of_char ch :: nat) \<and> (of_char ch :: nat) \<le> 90)
     \<or> (97 \<le> (of_char ch :: nat) \<and> (of_char ch :: nat) \<le> 122)"

definition asciiDigit :: "char \<Rightarrow> bool" where
  "asciiDigit ch \<longleftrightarrow> 48 \<le> (of_char ch :: nat) \<and> (of_char ch :: nat) \<le> 57"

definition asciiLower :: "char \<Rightarrow> char" where
  "asciiLower ch =
     (if 65 \<le> (of_char ch :: nat) \<and> (of_char ch :: nat) \<le> 90
        then char_of ((of_char ch :: nat) + 32)
      else ch)"

definition plainTagName :: "string \<Rightarrow> bool" where
  \<comment> \<open>a letter, then letters, digits and hyphens: a name every document accepts\<close>
  "plainTagName tag \<longleftrightarrow>
     (case tag of
        [] \<Rightarrow> False
      | ch # rest \<Rightarrow>
          asciiLetter ch \<and> list_all (\<lambda>x. asciiLetter x \<or> asciiDigit x \<or> x = CHR ''-'') rest)"

definition allocateElement :: "dom \<Rightarrow> string \<Rightarrow> nid \<times> dom" where
  "allocateElement d tag =
     (nextNode d, d\<lparr>nodes := (nodes d)(nextNode d := blankNode tag),
                     nextNode := Suc (nextNode d)\<rparr>)"

definition createElement :: "dom \<Rightarrow> string \<Rightarrow> error + nid \<times> dom" where
  \<comment> \<open>\<open>document.createElement(tag)\<close>: a tag that is not a name is refused; the empty
      string and a string that starts with a digit are never names\<close>
  "createElement d tag =
     (if plainTagName tag then Inr (allocateElement d tag)
      else if tag = [] then Inl InvalidCharacterError
      else if asciiDigit (hd tag) then Inl InvalidCharacterError
      else if acceptsTagName d tag then Inr (allocateElement d tag)
      else Inl InvalidCharacterError)"

definition setElemId :: "dom \<Rightarrow> nid \<Rightarrow> string \<Rightarrow> dom" where
  "setElemId d n i = d\<lparr>nodes := (nodes d)(n := (nodes d n)\<lparr>elemId := i\<rparr>)\<rparr>"

fun elementsOf :: "child list \<Rightarrow> nid list" where
  "elementsOf [] = []"
| "elementsOf (ChildElement n # cs) = n # elementsOf cs"
| "elementsOf (ChildContent v # cs) = elementsOf cs"

text \<open>
  The descendants of a node in tree order. The walk is bounded by its first argument;
  with \<open>nextNode\<close> as the bound it reaches every descendant in a store whose parent
  links form a tree.
\<close>

fun descendants :: "nat \<Rightarrow> dom \<Rightarrow> nid \<Rightarrow> nid list" where
  "descendants 0 d n = []"
| "descendants (Suc k) d n =
     concat (map (\<lambda>m. m # descendants k d m) (elementsOf (childNodes (nodes d n))))"

definition getElementById :: "dom \<Rightarrow> string \<Rightarrow> nid option" where
  \<comment> \<open>\<open>document.getElementById(i)\<close>: the first element of the document with that id,
      compared as it is; it takes any string and never throws\<close>
  "getElementById d i =
     (if i = [] then None
      else find (\<lambda>m. elemId (nodes d m) = i) (descendants (nextNode d) d (documentNode d)))"

definition plainIdentifier :: "string \<Rightarrow> bool" where
  \<comment> \<open>a letter or underscore, then letters, digits, underscores and hyphens: a CSS
      identifier that needs no escape\<close>
  "plainIdentifier i \<longleftrightarrow>
     (case i of
        [] \<Rightarrow> False
      | ch # rest \<Rightarrow>
          (asciiLetter ch \<or> ch = CHR ''_'')
          \<and> list_all (\<lambda>x. asciiLetter x \<or> asciiDigit x \<or> x = CHR ''_'' \<or> x = CHR ''-'') rest)"

definition matchesIdSelector :: "dom \<Rightarrow> string \<Rightarrow> nid \<Rightarrow> bool" where
  "matchesIdSelector d i m \<longleftrightarrow>
     (if quirksMode d then map asciiLower (elemId (nodes d m)) = map asciiLower i
      else elemId (nodes d m) = i)"

definition querySelectorId :: "dom \<Rightarrow> nid \<Rightarrow> string \<Rightarrow> error + nid option" where
  \<comment> \<open>\<open>root.querySelector('#' + i)\<close>. The string is parsed as a selector: for a plain
      identifier it selects by id; \<open>#\<close> alone or followed by a digit is no selector,
      and the call throws a \<open>SyntaxError\<close>; anything else is left to the browser\<close>
  "querySelectorId d root i =
     (if plainIdentifier i
        then Inr (find (matchesIdSelector d i) (descendants (nextNode d) d root))
      else if i = [] then Inl SyntaxError
      else if asciiDigit (hd i) then Inl SyntaxError
      else selectorEngine d (nodes d) root (CHR ''#'' # i))"

definition removeChild :: "dom \<Rightarrow> nid \<Rightarrow> nid \<Rightarrow> dom" where
  \<comment> \<open>\<open>parent.removeChild(ch)\<close>, called only with the parent of \<open>ch\<close>\<close>
  "removeChild d parent ch =
     d\<lparr>nodes := (nodes d)
         (parent := (nodes d parent)
            \<lparr>childNodes := filter (\<lambda>x. x \<noteq> ChildElement ch) (childNodes (nodes d parent))\<rparr>,
          ch := (nodes d ch)\<lparr>parentNode := None\<rparr>)\<rparr>"

fun insertAt :: "child \<Rightarrow> child \<Rightarrow> child list \<Rightarrow> child list" where
  "insertAt x r [] = [x]"
| "insertAt x r (y # ys) = (if y = r then x # y # ys else y # insertAt x r ys)"

definition insertBefore :: "dom \<Rightarrow> nid \<Rightarrow> nid \<Rightarrow> nid option \<Rightarrow> error + dom" where
  \<comment> \<open>\<open>parent.insertBefore(new, ref)\<close>; a null \<open>ref\<close> appends\<close>
  "insertBefore d parent new ref =
     (if parent = new \<or> parent \<in> set (descendants (nextNode d) d new)
        then Inl HierarchyRequestError
      else if (case ref of None \<Rightarrow> False | Some r \<Rightarrow> parentNode (nodes d r) \<noteq> Some parent)
        then Inl NotFoundError
      else if ref = Some new then Inr d
      else
        (let d1 = (case parentNode (nodes d new) of
                     None \<Rightarrow> d
                   | Some old \<Rightarrow> removeChild d old new);
             kids = childNodes (nodes d1 parent);
             kids' = (case ref of
                        None \<Rightarrow> kids @ [ChildElement new]
                      | Some r \<Rightarrow> insertAt (ChildElement new) (ChildElement r) kids)
         in Inr (d1\<lparr>nodes := (nodes d1)
                     (parent := (nodes d1 parent)\<lparr>childNodes := kids'\<rparr>,
                      new := (nodes d1 new)\<lparr>parentNode := Some parent\<rparr>)\<rparr>)))"

text \<open>
  Modelled from the spec: \<open>dom.removeChildren\<close> and \<open>dom.append\<close>, helpers of the
  \<open>dom\<close> module (the DOM adapter): a re-render clears the surface element's children,
  then appends the new content. Either helper dereferences the node it is given.
\<close>

definition dom_removeChildren :: "dom \<Rightarrow> nid \<Rightarrow> dom" where
  "dom_removeChildren d n =
     d\<lparr>nodes := (\<lambda>m. if m = n then (nodes d n)\<lparr>childNodes := []\<rparr>
                      else if m \<in> set (elementsOf (childNodes (nodes d n)))
                        then (nodes d m)\<lparr>parentNode := None\<rparr>
                      else nodes d m)\<rparr>"

definition dom_append :: "dom \<Rightarrow> nid \<Rightarrow> jsvalue \<Rightarrow> dom" where
  "dom_append d n content =
     d\<lparr>nodes := (nodes d)
         (n := (nodes d n)\<lparr>childNodes := childNodes (nodes d n) @ [ChildContent content]\<rparr>)\<rparr>"

text \<open>
  The component's effects on its collaborators are kept in a trace: the writes to the
  document, the lifecycle hooks (no-ops unless a subclass overrides them) and the
  attribute synchronization methods, with the values they are called with. What a hook
  or a synchronization method does in turn is not modelled.
\<close>

datatype hook = RenderInternal | DecorateInternal | Attached | Detached

datatype event =
    DomRemoveChildren nid
  | DomAppend nid jsvalue
  | DomRemoveChild nid nid
  | DomInsertBefore nid nid "nid option"
  | HookCall hook
  | SyncCall string jsvalue jsvalue

section \<open>The component\<close>

text \<open>
  A surface configuration object has the fields the component reads and writes:
  \<open>cacheState\<close> (absent until the first render when a configuration is supplied
  without it), \<open>element\<close> (resolved on demand) and \<open>renderAttrs\<close> (iterating over
  an absent list visits nothing, like over an empty one). The component itself is
  modelled with the state it owns and the document it lives in. \<open>surfaces\<close> and
  \<open>surfacesRenderAttrs\<close> are objects used as dictionaries; they are association
  lists of their own properties in the order in which the properties were added. An
  object that is passed in (the configurations given to \<open>addSurfaces\<close>, the changes
  of a batch) is the list of its entries in the order \<open>for ... in\<close> visits them. A
  disposed component, whose two dictionaries are \<open>null\<close>, is not modelled.

  Both dictionaries are plain objects, so a lookup that finds no property of their own
  goes on to \<open>Object.prototype\<close> and finds its members there. \<open>inheritedSurfaces\<close>
  holds what has been written to the functions among them through the surface
  operations (\<open>toString.element\<close>, \<open>toString.cacheState\<close>).

  \<open>syncMethods\<close> lists the attributes \<open>a\<close> for which the component has a method
  \<open>sync\<close> followed by the capitalized \<open>a\<close>; \<open>attrValue\<close> reads an attribute
  (\<open>this[attr]\<close>); \<open>getSurfaceContent\<close> is the content hook of the subclass.
\<close>

record surface =
  cacheState :: "int option"
  surface_element :: "nid option"
  renderAttrs :: "string list"

record component =
  component_id :: string
  element :: nid
  inDocument :: bool
  surfaces :: "(string \<times> surface) list"
  inheritedSurfaces :: "(string \<times> surface) list"
  surfacesRenderAttrs :: "(string \<times> string list) list"
  ATTRS_SYNC_MERGED :: "string list"
  SURFACE_TAG_NAME_MERGED :: string
  syncMethods :: "string list"
  attrValue :: "string \<Rightarrow> jsvalue"
  getSurfaceContent :: "string \<Rightarrow> jsvalue"
  document :: dom
  trace :: "event list"

text \<open>
  A call either returns or throws; in both cases the component is left in the state
  reached so far. A call can also go on to write to \<open>Object.prototype\<close> itself, or to
  use one of its members as an entry of the render-attribute index. What the program
  does from there on depends on every other object of the program, and the model stops:
  the call is \<open>Unmodelled\<close>, with the state reached so far, and nothing is said about
  it. A call that returns a value besides the state has an \<open>outcome\<close>.
\<close>

datatype 'a result = Ok 'a | Throw error 'a | Unmodelled 'a

datatype 'v outcome = Returns 'v component | Throws error component | UnmodelledAt component

definition NOT_CACHEABLE :: int where
  "NOT_CACHEABLE = - 1"

definition NOT_INITIALIZED :: int where
  "NOT_INITIALIZED = - 2"

definition callHook :: "component \<Rightarrow> hook \<Rightarrow> component" where
  "callHook c h = c\<lparr>trace := trace c @ [HookCall h]\<rparr>"

subsection \<open>The surface registry and the render-attribute index\<close>

definition objectPrototypeFunctions :: "string list" where
  \<comment> \<open>the methods every plain object inherits\<close>
  "objectPrototypeFunctions =
     [''constructor'', ''toString'', ''toLocaleString'', ''valueOf'', ''hasOwnProperty'',
      ''isPrototypeOf'', ''propertyIsEnumerable'', ''__defineGetter__'', ''__defineSetter__'',
      ''__lookupGetter__'', ''__lookupSetter__'']"

definition objectPrototypeNames :: "string list" where
  \<comment> \<open>the names \<open>name in {}\<close> holds for; \<open>{}.__proto__\<close> is \<open>Object.prototype\<close>\<close>
  "objectPrototypeNames = ''__proto__'' # objectPrototypeFunctions"

definition blankSurface :: surface where
  \<comment> \<open>an object with none of the three properties\<close>
  "blankSurface = \<lparr>cacheState = None, surface_element = None, renderAttrs = []\<rparr>"

definition inheritedSurface :: "component \<Rightarrow> string \<Rightarrow> surface option" where
  \<comment> \<open>\<open>Object.prototype[name]\<close>, read as a surface configuration\<close>
  "inheritedSurface c name =
     (if name = ''__proto__'' then Some blankSurface
      else if name \<in> set objectPrototypeFunctions then
        (case map_of (inheritedSurfaces c) name of
           None \<Rightarrow> Some blankSurface
         | Some s \<Rightarrow> Some s)
      else None)"

definition getSurface :: "component \<Rightarrow> string \<Rightarrow> surface option" where
  \<comment> \<open>\<open>this.surfaces_[surfaceId] || null\<close>: the entry, else what the name inherits\<close>
  "getSurface c surfaceId =
     (case map_of (surfaces c) surfaceId of
        Some s \<Rightarrow> Some s
      | None \<Rightarrow> inheritedSurface c surfaceId)"

definition putSurface :: "component \<Rightarrow> string \<Rightarrow> surface \<Rightarrow> component result" where
  \<comment> \<open>a write to a property of the object that \<open>getSurface\<close> returned, given the
      object as it is after the write; a write to \<open>null\<close> throws\<close>
  "putSurface c surfaceId s =
     (case map_of (surfaces c) surfaceId of
        Some s0 \<Rightarrow> Ok (c\<lparr>surfaces := AList.update surfaceId s (surfaces c)\<rparr>)
      | None \<Rightarrow>
          if surfaceId = ''__proto__'' then Unmodelled c
          else if surfaceId \<in> set objectPrototypeFunctions then
            Ok (c\<lparr>inheritedSurfaces := AList.update surfaceId s (inheritedSurfaces c)\<rparr>)
          else Throw TypeError c)"

text \<open>
  \<open>for ... in\<close> visits the properties of an object that are array indices first, in
  ascending order, and then the others in the order in which they were added. An array
  index is the decimal numeral, without leading zeros, of a number below 4294967295.
\<close>

definition indexValue :: "string \<Rightarrow> nat" where
  "indexValue k = foldl (\<lambda>n ch. 10 * n + ((of_char ch :: nat) - 48)) 0 k"

definition isArrayIndex :: "string \<Rightarrow> bool" where
  "isArrayIndex k \<longleftrightarrow>
     k \<noteq> [] \<and> list_all asciiDigit k \<and> (k = ''0'' \<or> hd k \<noteq> CHR ''0'')
     \<and> indexValue k < 4294967295"

definition forInOrder :: "string list \<Rightarrow> string list" where
  \<comment> \<open>the keys of an object, given in the order they were added, as \<open>for ... in\<close>
      visits them\<close>
  "forInOrder ks =
     sort_key indexValue (filter isArrayIndex ks) @ filter (\<lambda>k. \<not> isArrayIndex k) ks"

definition addKey :: "string \<Rightarrow> string list \<Rightarrow> string list" where
  \<comment> \<open>\<open>obj[key] = true\<close> on a plain object whose values are all \<open>true\<close>; the
      assignment to \<open>__proto__\<close> adds no key\<close>
  "addKey k ks = (if k \<in> set ks \<or> k = ''__proto__'' then ks else ks @ [k])"

fun cacheAttrs :: "string \<Rightarrow> (string \<times> string list) list \<Rightarrow> string list \<Rightarrow> (string \<times> string list) list result" where
  \<comment> \<open>the loop of \<open>cacheSurfaceRenderAttrs_\<close> over the index; for an attribute without
      entry \<open>this.surfacesRenderAttrs_[attr] || {}\<close> is a new object, unless the name is
      inherited\<close>
  "cacheAttrs surfaceId idx [] = Ok idx"
| "cacheAttrs surfaceId idx (attr # attrs) =
     (case map_of idx attr of
        Some ks \<Rightarrow> cacheAttrs surfaceId (AList.update attr (addKey surfaceId ks) idx) attrs
      | None \<Rightarrow>
          if attr \<in> set objectPrototypeNames then Unmodelled idx
          else cacheAttrs surfaceId (AList.update attr (addKey surfaceId []) idx) attrs)"

definition cacheSurfaceRenderAttrs :: "component \<Rightarrow> string \<Rightarrow> component result" where
  "cacheSurfaceRenderAttrs c surfaceId =
     (case getSurface c surfaceId of
        None \<Rightarrow> Throw TypeError c
      | Some s \<Rightarrow>
          (case cacheAttrs surfaceId (surfacesRenderAttrs c) (renderAttrs s) of
             Ok idx \<Rightarrow> Ok (c\<lparr>surfacesRenderAttrs := idx\<rparr>)
           | Throw e idx \<Rightarrow> Throw e (c\<lparr>surfacesRenderAttrs := idx\<rparr>)
           | Unmodelled idx \<Rightarrow> Unmodelled (c\<lparr>surfacesRenderAttrs := idx\<rparr>)))"

definition defaultSurface :: surface where
  "defaultSurface = \<lparr>cacheState = Some NOT_INITIALIZED, surface_element = None, renderAttrs = []\<rparr>"

definition addSurface :: "component \<Rightarrow> string \<Rightarrow> surface option \<Rightarrow> component result" where
  \<comment> \<open>the assignment \<open>this.surfaces_[surfaceId] = ...\<close> adds or replaces the entry,
      except for \<open>__proto__\<close>, where it replaces what \<open>surfaces_\<close> inherits from\<close>
  "addSurface c surfaceId opt_config =
     (if surfaceId = ''__proto__'' then Unmodelled c
      else
        cacheSurfaceRenderAttrs
          (c\<lparr>surfaces := AList.update surfaceId
               (case opt_config of None \<Rightarrow> defaultSurface | Some config \<Rightarrow> config) (surfaces c)\<rparr>)
          surfaceId)"

fun addSurfaces :: "component \<Rightarrow> (string \<times> surface option) list \<Rightarrow> component result" where
  "addSurfaces c [] = Ok c"
| "addSurfaces c ((surfaceId, config) # configs) =
     (case addSurface c surfaceId config of
        Ok c' \<Rightarrow> addSurfaces c' configs
      | Throw e c' \<Rightarrow> Throw e c'
      | Unmodelled c' \<Rightarrow> Unmodelled c')"

definition makeSurfaceId :: "component \<Rightarrow> string \<Rightarrow> string" where
  "makeSurfaceId c surfaceId = component_id c @ ''-'' @ surfaceId"

definition createSurfaceElement :: "component \<Rightarrow> string \<Rightarrow> nid outcome" where
  "createSurfaceElement c surfaceElementId =
     (case createElement (document c) (SURFACE_TAG_NAME_MERGED c) of
        Inl e \<Rightarrow> Throws e c
      | Inr (el, d) \<Rightarrow> Returns el (c\<lparr>document := setElemId d el surfaceElementId\<rparr>))"

definition lookupSurfaceElement :: "component \<Rightarrow> string \<Rightarrow> nid outcome" where
  \<comment> \<open>\<open>document.getElementById(i) || this.element.querySelector('#' + i) ||
      this.createSurfaceElement_(i)\<close>\<close>
  "lookupSurfaceElement c surfaceElementId =
     (case getElementById (document c) surfaceElementId of
        Some e \<Rightarrow> Returns e c
      | None \<Rightarrow>
          (case querySelectorId (document c) (element c) surfaceElementId of
             Inl e \<Rightarrow> Throws e c
           | Inr (Some e) \<Rightarrow> Returns e c
           | Inr None \<Rightarrow> createSurfaceElement c surfaceElementId))"

definition getSurfaceElement :: "component \<Rightarrow> string \<Rightarrow> nid option outcome" where
  "getSurfaceElement c surfaceId =
     (case getSurface c surfaceId of
        None \<Rightarrow> Returns None c
      | Some s \<Rightarrow>
          (case surface_element s of
             Some el \<Rightarrow> Returns (Some el) c
           | None \<Rightarrow>
               (case lookupSurfaceElement c (makeSurfaceId c surfaceId) of
                  Throws e c1 \<Rightarrow> Throws e c1
                | UnmodelledAt c1 \<Rightarrow> UnmodelledAt c1
                | Returns el c1 \<Rightarrow>
                    (case putSurface c1 surfaceId (s\<lparr>surface_element := Some el\<rparr>) of
                       Ok c2 \<Rightarrow> Returns (Some el) c2
                     | Throw e c2 \<Rightarrow> Throws e c2
                     | Unmodelled c2 \<Rightarrow> UnmodelledAt c2))))"

definition removeSurface :: "component \<Rightarrow> string \<Rightarrow> component result" where
  \<comment> \<open>\<open>delete\<close> removes a property of \<open>surfaces_\<close> itself and nothing else\<close>
  "removeSurface c surfaceId =
     (case getSurfaceElement c surfaceId of
        Throws e c1 \<Rightarrow> Throw e c1
      | UnmodelledAt c1 \<Rightarrow> Unmodelled c1
      | Returns opt_el c1 \<Rightarrow>
          (let c2 = (case opt_el of
                       None \<Rightarrow> c1
                     | Some el \<Rightarrow>
                         (case parentNode (nodes (document c1) el) of
                            None \<Rightarrow> c1
                          | Some p \<Rightarrow>
                              c1\<lparr>document := removeChild (document c1) p el,
                                  trace := trace c1 @ [DomRemoveChild p el]\<rparr>))
           in Ok (c2\<lparr>surfaces := AList.delete surfaceId (surfaces c2)\<rparr>)))"

text \<open>
  Modelled from the spec: \<open>object.mixin\<close>, a helper of the \<open>object\<close> module: the
  shallow merge, left to right, of the objects that follow the first argument into the
  first argument, which is returned. The first argument is the target: where a new
  object is wanted, \<open>mergeSurfaces_\<close> puts \<open>{}\<close> in front of the objects it merges.
  The objects here are index entries, given by their keys, or \<open>undefined\<close>. Iterating
  over \<open>undefined\<close> visits nothing; writing a key to a target that is \<open>undefined\<close>
  throws.
\<close>

fun mixinInto :: "string list \<Rightarrow> string list option list \<Rightarrow> string list" where
  "mixinInto target [] = target"
| "mixinInto target (None # srcs) = mixinInto target srcs"
| "mixinInto target (Some ks # srcs) =
     mixinInto (foldl (\<lambda>t k. addKey k t) target (forInOrder ks)) srcs"

definition object_mixin :: "string list option list \<Rightarrow> error + string list option" where
  "object_mixin args =
     (case args of
        [] \<Rightarrow> Inr None
      | None # srcs \<Rightarrow>
          if list_all (\<lambda>src. case src of None \<Rightarrow> True | Some ks \<Rightarrow> ks = []) srcs
            then Inr None
          else Inl TypeError
      | Some target # srcs \<Rightarrow> Inr (Some (mixinInto target srcs)))"

type_synonym changes = "(string \<times> (jsvalue \<times> jsvalue) option) list"

text \<open>
  \<open>getModifiedSurfacesFromChanges_\<close> collects \<open>this.surfacesRenderAttrs_[attr]\<close> for the
  changed attributes and applies \<open>object.mixin\<close> to what it collected. The first
  object collected is the index entry of the first changed attribute itself, so the
  merge is written into the index, and the object returned is that entry. The result
  here is the list of its keys, with the component after the write.
\<close>

definition getModifiedSurfacesFromChanges :: "component \<Rightarrow> changes \<Rightarrow> string list outcome" where
  "getModifiedSurfacesFromChanges c chs =
     (if list_ex (\<lambda>attr. map_of (surfacesRenderAttrs c) attr = None
                         \<and> attr \<in> set objectPrototypeNames) (map fst chs)
        then UnmodelledAt c
      else
        (case object_mixin (map (\<lambda>attr. map_of (surfacesRenderAttrs c) attr) (map fst chs)) of
           Inl e \<Rightarrow> Throws e c
         | Inr None \<Rightarrow> Returns [] c
         | Inr (Some ks) \<Rightarrow>
             Returns ks
               (c\<lparr>surfacesRenderAttrs :=
                    AList.update (fst (hd chs)) ks (surfacesRenderAttrs c)\<rparr>)))"

subsection \<open>Surface content caching and rendering\<close>

definition computeSurfaceCacheState :: "jsvalue \<Rightarrow> int" where
  "computeSurfaceCacheState v =
     (case v of Str s \<Rightarrow> hashCode s | _ \<Rightarrow> NOT_CACHEABLE)"

definition getSurfaceContent_protected :: "component \<Rightarrow> string \<Rightarrow> jsvalue" where
  \<comment> \<open>\<open>getSurfaceContent_\<close>, which just calls \<open>getSurfaceContent\<close>\<close>
  "getSurfaceContent_protected c surfaceId = getSurfaceContent c surfaceId"

text \<open>
  \<open>renderSurfaceContent\<close>, in the order the source evaluates it. The condition is a
  short-circuit disjunction: \<open>surface.cacheState\<close> is read only when the fingerprint is
  neither sentinel, and reading it from \<open>null\<close> throws. In the branch,
  \<open>getSurfaceElement\<close> may resolve and store the element; the final assignment
  writes to the same surface object, so it is applied to the surface as it is then.
\<close>

definition rerenderSurface :: "component \<Rightarrow> string \<Rightarrow> jsvalue \<Rightarrow> component result" where
  \<comment> \<open>the body of the \<open>if\<close>: \<open>getSurfaceElement\<close>, \<open>dom.removeChildren\<close>, \<open>dom.append\<close>\<close>
  "rerenderSurface c surfaceId content =
     (case getSurfaceElement c surfaceId of
        Throws e c1 \<Rightarrow> Throw e c1
      | UnmodelledAt c1 \<Rightarrow> Unmodelled c1
      | Returns None c1 \<Rightarrow> Throw TypeError c1
      | Returns (Some el) c1 \<Rightarrow>
          Ok (c1\<lparr>document := dom_append (dom_removeChildren (document c1) el) el content,
                  trace := trace c1 @ [DomRemoveChildren el, DomAppend el content]\<rparr>))"

definition storeCacheState :: "component \<Rightarrow> string \<Rightarrow> int \<Rightarrow> component result" where
  \<comment> \<open>\<open>surface.cacheState = cacheState\<close>\<close>
  "storeCacheState c surfaceId cs =
     (case getSurface c surfaceId of
        None \<Rightarrow> Throw TypeError c
      | Some s \<Rightarrow> putSurface c surfaceId (s\<lparr>cacheState := Some cs\<rparr>))"

definition renderSurfaceContent :: "component \<Rightarrow> string \<Rightarrow> jsvalue \<Rightarrow> component result" where
  "renderSurfaceContent c surfaceId content =
     (if isDefAndNotNull content then
        (let surface = getSurface c surfaceId;
             cs = computeSurfaceCacheState content
         in if cs = NOT_INITIALIZED \<or> cs = NOT_CACHEABLE then
              (case rerenderSurface c surfaceId content of
                 Ok c1 \<Rightarrow> storeCacheState c1 surfaceId cs
               | Throw e c1 \<Rightarrow> Throw e c1
               | Unmodelled c1 \<Rightarrow> Unmodelled c1)
            else
              (case surface of
                 None \<Rightarrow> Throw TypeError c
               | Some s \<Rightarrow>
                   if Some cs \<noteq> cacheState s then
                     (case rerenderSurface c surfaceId content of
                        Ok c1 \<Rightarrow> storeCacheState c1 surfaceId cs
                      | Throw e c1 \<Rightarrow> Throw e c1
                      | Unmodelled c1 \<Rightarrow> Unmodelled c1)
                   else storeCacheState c surfaceId cs))
      else Ok c)"

fun renderSurfacesContent :: "component \<Rightarrow> string list \<Rightarrow> component result" where
  \<comment> \<open>the second argument holds the keys of the object the source iterates over, in the
      order of the iteration\<close>
  "renderSurfacesContent c [] = Ok c"
| "renderSurfacesContent c (surfaceId # rest) =
     (case renderSurfaceContent c surfaceId (getSurfaceContent_protected c surfaceId) of
        Ok c' \<Rightarrow> renderSurfacesContent c' rest
      | Throw e c' \<Rightarrow> Throw e c'
      | Unmodelled c' \<Rightarrow> Unmodelled c')"

definition clearSurfacesCache :: "component \<Rightarrow> component" where
  "clearSurfacesCache c =
     c\<lparr>surfaces := map (\<lambda>(surfaceId, s). (surfaceId, s\<lparr>cacheState := Some NOT_INITIALIZED\<rparr>))
                       (surfaces c)\<rparr>"

text \<open>
  Modelled from the spec: \<open>html.compress\<close>, a helper of the \<open>html\<close> module: the
  normalizer that collapses whitespace runs into single spaces and trims the string
  before it is hashed, that is \<open>string.collapseBreakingSpaces\<close>.
\<close>

definition html_compress :: "jsstring \<Rightarrow> jsstring" where
  "html_compress str = collapseBreakingSpaces str"

text \<open>
  \<open>computeSurfacesCacheStateFromDom_\<close> reads \<open>innerHTML\<close> of each surface element.
  How the browser serializes the children of an element is a parameter.
\<close>

definition cacheStateFromDom :: "(dom \<Rightarrow> nid \<Rightarrow> jsstring) \<Rightarrow> component \<Rightarrow> string \<Rightarrow> component result" where
  \<comment> \<open>one round of the loop of \<open>computeSurfacesCacheStateFromDom_\<close>\<close>
  "cacheStateFromDom innerHTML c surfaceId =
     (case getSurfaceElement c surfaceId of
        Throws e c1 \<Rightarrow> Throw e c1
      | UnmodelledAt c1 \<Rightarrow> Unmodelled c1
      | Returns None c1 \<Rightarrow> Throw TypeError c1
      | Returns (Some el) c1 \<Rightarrow>
          storeCacheState c1 surfaceId
            (computeSurfaceCacheState (Str (html_compress (innerHTML (document c1) el)))))"

fun cacheStatesFromDom :: "(dom \<Rightarrow> nid \<Rightarrow> jsstring) \<Rightarrow> component \<Rightarrow> string list \<Rightarrow> component result" where
  "cacheStatesFromDom innerHTML c [] = Ok c"
| "cacheStatesFromDom innerHTML c (surfaceId # rest) =
     (case cacheStateFromDom innerHTML c surfaceId of
        Ok c' \<Rightarrow> cacheStatesFromDom innerHTML c' rest
      | Throw e c' \<Rightarrow> Throw e c'
      | Unmodelled c' \<Rightarrow> Unmodelled c')"

definition computeSurfacesCacheStateFromDom :: "(dom \<Rightarrow> nid \<Rightarrow> jsstring) \<Rightarrow> component \<Rightarrow> component result" where
  "computeSurfacesCacheStateFromDom innerHTML c =
     cacheStatesFromDom innerHTML c (forInOrder (map fst (surfaces c)))"

subsection \<open>Attribute synchronization\<close>

definition fireAttrChange :: "component \<Rightarrow> string \<Rightarrow> (jsvalue \<times> jsvalue) option \<Rightarrow> component" where
  "fireAttrChange c attr opt_change =
     (if attr \<in> set (syncMethods c) then
        (case (case opt_change of
                 None \<Rightarrow> (attrValue c attr, Undefined)
               | Some change \<Rightarrow> change) of
           (newVal, prevVal) \<Rightarrow> c\<lparr>trace := trace c @ [SyncCall attr newVal prevVal]\<rparr>)
      else c)"

fun fireAttrsChanges :: "component \<Rightarrow> changes \<Rightarrow> component" where
  \<comment> \<open>\<open>attr in ATTRS_SYNC_MERGED\<close> holds for the keys of the object and for the names
      it inherits\<close>
  "fireAttrsChanges c [] = c"
| "fireAttrsChanges c ((attr, ch) # chs) =
     fireAttrsChanges
       (if attr \<in> set (ATTRS_SYNC_MERGED c) \<or> attr \<in> set objectPrototypeNames
          then fireAttrChange c attr ch
        else c) chs"

definition syncAllChanges :: "component \<Rightarrow> changes" where
  \<comment> \<open>\<open>ATTRS_SYNC_MERGED\<close> passed as the changes: every value is \<open>undefined\<close>\<close>
  "syncAllChanges c = map (\<lambda>attr. (attr, None)) (forInOrder (ATTRS_SYNC_MERGED c))"

definition handleAttributesChanges :: "component \<Rightarrow> changes \<Rightarrow> component result" where
  "handleAttributesChanges c chs =
     (if inDocument c then
        (case getModifiedSurfacesFromChanges c chs of
           Throws e c1 \<Rightarrow> Throw e c1
         | UnmodelledAt c1 \<Rightarrow> Unmodelled c1
         | Returns modified c1 \<Rightarrow>
             (case renderSurfacesContent c1 (forInOrder modified) of
                Ok c2 \<Rightarrow> Ok (fireAttrsChanges c2 chs)
              | Throw e c2 \<Rightarrow> Throw e c2
              | Unmodelled c2 \<Rightarrow> Unmodelled c2))
      else Ok (fireAttrsChanges c chs))"

subsection \<open>The lifecycle\<close>

text \<open>
  \<open>render\<close> and \<open>attach\<close> take their optional parent and sibling as elements already
  (\<open>dom.toElement\<close> applied); \<open>None\<close> is an argument left out.
\<close>

definition renderElement :: "component \<Rightarrow> nid option \<Rightarrow> nid option \<Rightarrow> component result" where
  "renderElement c opt_parentElement opt_siblingElement =
     (let c1 = c\<lparr>document := setElemId (document c) (element c) (component_id c)\<rparr>
      in if opt_siblingElement \<noteq> None \<or> parentNode (nodes (document c1) (element c1)) = None then
           (let parent = (case opt_parentElement of
                            None \<Rightarrow> body (document c1)
                          | Some p \<Rightarrow> p)
            in case insertBefore (document c1) parent (element c1) opt_siblingElement of
                 Inl e \<Rightarrow> Throw e c1
               | Inr d \<Rightarrow>
                   Ok (c1\<lparr>document := d,
                           trace := trace c1
                             @ [DomInsertBefore parent (element c1) opt_siblingElement]\<rparr>))
         else Ok c1)"

definition attach :: "component \<Rightarrow> nid option \<Rightarrow> nid option \<Rightarrow> component result" where
  "attach c opt_parentElement opt_siblingElement =
     (case renderElement c opt_parentElement opt_siblingElement of
        Ok c1 \<Rightarrow> Ok (callHook (c1\<lparr>inDocument := True\<rparr>) Attached)
      | Throw e c1 \<Rightarrow> Throw e c1
      | Unmodelled c1 \<Rightarrow> Unmodelled c1)"

definition detach :: "component \<Rightarrow> component result" where
  "detach c =
     (case parentNode (nodes (document c) (element c)) of
        None \<Rightarrow> Throw TypeError c
      | Some p \<Rightarrow>
          Ok (callHook
                (c\<lparr>document := removeChild (document c) p (element c),
                   trace := trace c @ [DomRemoveChild p (element c)],
                   inDocument := False\<rparr>)
                Detached))"

definition render :: "component \<Rightarrow> nid option \<Rightarrow> nid option \<Rightarrow> component result" where
  "render c opt_parentElement opt_siblingElement =
     (if inDocument c then Throw ALREADY_RENDERED c
      else
        (let c1 = callHook c RenderInternal;
             c2 = clearSurfacesCache c1
         in case renderSurfacesContent c2 (forInOrder (map fst (surfaces c2))) of
              Throw e c3 \<Rightarrow> Throw e c3
            | Unmodelled c3 \<Rightarrow> Unmodelled c3
            | Ok c3 \<Rightarrow>
                attach (fireAttrsChanges c3 (syncAllChanges c3))
                  opt_parentElement opt_siblingElement))"

definition decorate :: "(dom \<Rightarrow> nid \<Rightarrow> jsstring) \<Rightarrow> component \<Rightarrow> component result" where
  "decorate innerHTML c =
     (if inDocument c then Throw ALREADY_RENDERED c
      else
        (let c1 = callHook c DecorateInternal
         in case computeSurfacesCacheStateFromDom innerHTML c1 of
              Throw e c2 \<Rightarrow> Throw e c2
            | Unmodelled c2 \<Rightarrow> Unmodelled c2
            | Ok c2 \<Rightarrow>
                (case renderSurfacesContent c2 (forInOrder (map fst (surfaces c2))) of
                   Throw e c3 \<Rightarrow> Throw e c3
                 | Unmodelled c3 \<Rightarrow> Unmodelled c3
                 | Ok c3 \<Rightarrow> attach (fireAttrsChanges c3 (syncAllChanges c3)) None None)))"

section \<open>Observing a call\<close>

text \<open>
  What a caller can see of a call: the state it leaves, whether it returned, the value
  or the error, and the events it added to the trace.
\<close>

fun resultState :: "'a result \<Rightarrow> 'a" where
  "resultState (Ok c) = c"
| "resultState (Throw e c) = c"
| "resultState (Unmodelled c) = c"

fun returns :: "'a result \<Rightarrow> bool" where
  "returns (Ok c) = True"
| "returns r = False"

fun outcomeState :: "'v outcome \<Rightarrow> component" where
  "outcomeState (Returns v c) = c"
| "outcomeState (Throws e c) = c"
| "outcomeState (UnmodelledAt c) = c"

fun outcomeError :: "'v outcome \<Rightarrow> error option" where
  "outcomeError (Throws e c) = Some e"
| "outcomeError r = None"

fun returnedValue :: "'v outcome \<Rightarrow> 'v option" where
  "returnedValue (Returns v c) = Some v"
| "returnedValue r = None"

definition assignable :: "component \<Rightarrow> string \<Rightarrow> bool" where
  \<comment> \<open>the surface id names an entry of \<open>surfaces_\<close> or an inherited function: an
      object whose properties the model keeps\<close>
  "assignable c surfaceId \<longleftrightarrow>
     (case map_of (surfaces c) surfaceId of
        Some s \<Rightarrow> True
      | None \<Rightarrow> surfaceId \<in> set objectPrototypeFunctions)"

definition newEvents :: "component \<Rightarrow> component result \<Rightarrow> event list" where
  \<comment> \<open>the effects of a call that started in \<open>c\<close>\<close>
  "newEvents c r = drop (length (trace c)) (trace (resultState r))"

section \<open>Example components\<close>

text \<open>
  A document with a body, and a component \<open>c\<close> whose root element is a detached
  \<open>div\<close>. The content hook gives surface \<open>a\<close> the string \<open>Aa\<close> and surface \<open>b\<close>
  the string \<open>x\<close>. The document is not in quirks mode; the examples use no selector
  and no tag name that is left to the browser, which here refuses them all.
\<close>

definition exampleDom :: dom where
  "exampleDom =
     \<lparr>nodes = (\<lambda>n. blankNode [])
        (0 := \<lparr>tagName = ''#document'', elemId = [], parentNode = None,
               childNodes = [ChildElement 1]\<rparr>,
         1 := \<lparr>tagName = ''body'', elemId = [], parentNode = Some 0, childNodes = []\<rparr>,
         2 := blankNode ''div''),
      nextNode = 3, documentNode = 0, body = 1, quirksMode = False,
      selectorEngine = (\<lambda>ns root selector. Inl SyntaxError),
      acceptsTagName = (\<lambda>tag. False)\<rparr>"

definition exampleContent :: "string \<Rightarrow> jsvalue" where
  "exampleContent surfaceId =
     (if surfaceId = ''a'' then Str (js ''Aa'')
      else if surfaceId = ''b'' then Str (js ''x'')
      else Undefined)"

definition exampleComponent :: component where
  "exampleComponent =
     \<lparr>component_id = ''c'', element = 2, inDocument = False, surfaces = [],
      inheritedSurfaces = [],
      surfacesRenderAttrs = [], ATTRS_SYNC_MERGED = [''elementClasses'', ''foo''],
      SURFACE_TAG_NAME_MERGED = ''div'', syncMethods = [''elementClasses'', ''foo''],
      attrValue = (\<lambda>attr. Undefined), getSurfaceContent = exampleContent,
      document = exampleDom, trace = []\<rparr>"

definition surfaceWith :: "string list \<Rightarrow> surface" where
  \<comment> \<open>a static surface declaration: \<open>{renderAttrs: [...]}\<close>\<close>
  "surfaceWith attrs = \<lparr>cacheState = None, surface_element = None, renderAttrs = attrs\<rparr>"

definition exampleSurfaces :: component where
  \<comment> \<open>surfaces \<open>{a: {renderAttrs: ['foo']}, b: {renderAttrs: ['bar']}}\<close>\<close>
  "exampleSurfaces =
     resultState (addSurfaces exampleComponent
       [(''a'', Some (surfaceWith [''foo''])), (''b'', Some (surfaceWith [''bar'']))])"

definition exampleAttached :: component where
  "exampleAttached = resultState (render exampleSurfaces None None)"

definition renderedNodes :: "nid \<Rightarrow> node" where
  \<comment> \<open>the nodes of the document once the example is rendered\<close>
  "renderedNodes =
     (\<lambda>n. blankNode [])
       (0 := \<lparr>tagName = ''#document'', elemId = [], parentNode = None,
              childNodes = [ChildElement 1]\<rparr>,
        1 := \<lparr>tagName = ''body'', elemId = [], parentNode = Some 0,
              childNodes = [ChildElement 2]\<rparr>,
        2 := \<lparr>tagName = ''div'', elemId = ''c'', parentNode = Some 1, childNodes = []\<rparr>,
        3 := \<lparr>tagName = ''div'', elemId = ''c-a'', parentNode = None,
              childNodes = [ChildContent (Str (js ''Aa''))]\<rparr>,
        4 := \<lparr>tagName = ''div'', elemId = ''c-b'', parentNode = None,
              childNodes = [ChildContent (Str (js ''x''))]\<rparr>)"

definition exampleDetached :: component where
  "exampleDetached = resultState (detach exampleAttached)"

definition exampleChanged :: component where
  \<comment> \<open>the rendered example after the content of every surface changed\<close>
  "exampleChanged = exampleAttached\<lparr>getSurfaceContent := (\<lambda>surfaceId. Str (js ''new''))\<rparr>"

definition exampleChangedAgain :: component where
  \<comment> \<open>the rendered example after a batch that changed \<open>foo\<close> and \<open>bar\<close>, and then
      another change of the content\<close>
  "exampleChangedAgain =
     (resultState (handleAttributesChanges exampleChanged
        [(''foo'', Some (Obj 7, Obj 8)), (''bar'', Some (Obj 3, Obj 4))]))
     \<lparr>getSurfaceContent := (\<lambda>surfaceId. Str (js ''newer''))\<rparr>"

definition exampleDigitId :: component where
  \<comment> \<open>the example with the id \<open>1c\<close> in place of \<open>c\<close>\<close>
  "exampleDigitId = exampleSurfaces\<lparr>component_id := ''1c''\<rparr>"


section \<open>Facts about the string helpers\<close>

lemma replaceRuns_word:
  "\<forall>x \<in> set w. \<not> isBreakingSpace x \<Longrightarrow> replaceRuns (w @ r) = w @ replaceRuns r"
  by (induction w) auto

lemma replaceRuns_starts:
  "t = [] \<or> \<not> isBreakingSpace (hd t) \<Longrightarrow>
   replaceRuns t = [] \<and> t = [] \<or> replaceRuns t \<noteq> [] \<and> \<not> isBreakingSpace (hd (replaceRuns t))"
  by (cases t) auto

lemma dropWhile_starts: "dropWhile P t = [] \<or> \<not> P (hd (dropWhile P t))"
  by (metis hd_dropWhile)

lemma dropWhile_replaceRuns:
  "dropWhile isBreakingSpace (replaceRuns s) = replaceRuns (dropWhile isBreakingSpace s)"
proof (cases s)
  case Nil
  then show ?thesis by simp
next
  case (Cons c cs)
  show ?thesis
  proof (cases "isBreakingSpace c")
    case False
    then show ?thesis by (simp add: Cons)
  next
    case True
    let ?t = "dropWhile isBreakingSpace cs"
    have "dropWhile isBreakingSpace (replaceRuns ?t) = replaceRuns ?t"
      using replaceRuns_starts [OF dropWhile_starts [of isBreakingSpace cs]]
      by (cases "replaceRuns ?t") auto
    then show ?thesis
      using True by (simp add: Cons isBreakingSpace_def)
  qed
qed

lemma removeTrailingRun_word:
  "\<forall>x \<in> set w. \<not> isBreakingSpace x \<Longrightarrow> removeTrailingRun (w @ r) = w @ removeTrailingRun r"
  by (induction w) auto

lemma list_all_replaceRuns:
  assumes "t = [] \<or> \<not> isBreakingSpace (hd t)"
  shows "list_all isBreakingSpace (replaceRuns t) \<longleftrightarrow> t = []"
proof (cases t)
  case Nil
  then show ?thesis by simp
next
  case (Cons c cs)
  with assms have "\<not> isBreakingSpace c" by simp
  then show ?thesis by (simp add: Cons)
qed

lemma removeTrailingRun_separator:
  assumes "r = [] \<or> isBreakingSpace (hd r)"
  shows "removeTrailingRun (replaceRuns r) =
           (if dropWhile isBreakingSpace r = [] then []
            else 32 # removeTrailingRun (replaceRuns (dropWhile isBreakingSpace r)))"
proof (cases r)
  case Nil
  then show ?thesis by simp
next
  case (Cons x xs)
  with assms have x: "isBreakingSpace x" by simp
  define t where "t = dropWhile isBreakingSpace xs"
  have t: "list_all isBreakingSpace (replaceRuns t) \<longleftrightarrow> t = []"
    unfolding t_def by (rule list_all_replaceRuns [OF dropWhile_starts])
  have "isBreakingSpace 32" by (simp add: isBreakingSpace_def)
  then have "removeTrailingRun (32 # replaceRuns t)
      = (if t = [] then [] else 32 # removeTrailingRun (replaceRuns t))"
    using t by (cases "t = []") simp_all
  moreover have "replaceRuns r = 32 # replaceRuns t" "dropWhile isBreakingSpace r = t"
    using x by (simp_all add: Cons t_def)
  ultimately show ?thesis by simp
qed

lemma wordsOf_dropWhile: "wordsOf (dropWhile isBreakingSpace s) = wordsOf s"
  by (induction s) auto

lemma wordsOf_empty: "t = [] \<or> \<not> isBreakingSpace (hd t) \<Longrightarrow> wordsOf t = [] \<longleftrightarrow> t = []"
  by (cases t) auto

lemma joinWithSpace_Cons:
  "joinWithSpace (w # ws) = w @ (if ws = [] then [] else 32 # joinWithSpace ws)"
  by (cases ws) auto

lemma removeTrailingRun_replaceRuns:
  "removeTrailingRun (replaceRuns (dropWhile isBreakingSpace s)) = joinWithSpace (wordsOf s)"
proof (induction s rule: wordsOf.induct)
  case 1
  show ?case by simp
next
  case (2 c cs)
  show ?case
  proof (cases "isBreakingSpace c")
    case True
    with 2 show ?thesis by simp
  next
    case False
    let ?w = "takeWhile (\<lambda>x. \<not> isBreakingSpace x) cs"
    let ?r = "dropWhile (\<lambda>x. \<not> isBreakingSpace x) cs"
    have w: "\<forall>x \<in> set (c # ?w). \<not> isBreakingSpace x"
      using False by (auto dest: set_takeWhileD)
    have r: "?r = [] \<or> isBreakingSpace (hd ?r)"
      using dropWhile_starts [of "\<lambda>x. \<not> isBreakingSpace x" cs] by simp
    have ih: "removeTrailingRun (replaceRuns (dropWhile isBreakingSpace ?r))
        = joinWithSpace (wordsOf ?r)"
      using 2(2) [OF False] .
    have e: "dropWhile isBreakingSpace ?r = [] \<longleftrightarrow> wordsOf ?r = []"
      using wordsOf_empty [OF dropWhile_starts [of isBreakingSpace ?r]]
      by (simp add: wordsOf_dropWhile)
    have "replaceRuns (c # cs) = (c # ?w) @ replaceRuns ?r"
      using replaceRuns_word [OF w, of ?r] by simp
    then have "removeTrailingRun (replaceRuns (c # cs))
        = (c # ?w) @ removeTrailingRun (replaceRuns ?r)"
      using removeTrailingRun_word [OF w] by simp
    also have "\<dots> = (c # ?w) @ (if wordsOf ?r = [] then [] else 32 # joinWithSpace (wordsOf ?r))"
      using removeTrailingRun_separator [OF r] ih e by simp
    also have "\<dots> = joinWithSpace (wordsOf (c # cs))"
      using False by (simp add: joinWithSpace_Cons)
    finally show ?thesis
      using False by simp
  qed
qed

lemma collapseBreakingSpaces_words:
  "collapseBreakingSpaces s = joinWithSpace (wordsOf s)"
  by (simp add: collapseBreakingSpaces_def dropWhile_replaceRuns removeTrailingRun_replaceRuns)

lemma wordsOf_words:
  "w \<in> set (wordsOf s) \<Longrightarrow> w \<noteq> [] \<and> (\<forall>x \<in> set w. \<not> isBreakingSpace x)"
proof (induction s rule: wordsOf.induct)
  case 1
  then show ?case by simp
next
  case (2 c cs)
  show ?case
  proof (cases "isBreakingSpace c")
    case True
    with 2 show ?thesis by simp
  next
    case False
    from 2(3) False consider
      "w = c # takeWhile (\<lambda>x. \<not> isBreakingSpace x) cs"
      | "w \<in> set (wordsOf (dropWhile (\<lambda>x. \<not> isBreakingSpace x) cs))"
      by auto
    then show ?thesis
    proof cases
      case 1
      then show ?thesis using False by (auto dest: set_takeWhileD)
    next
      case 2
      then show ?thesis using "2.IH"(2) [OF False] by blast
    qed
  qed
qed

lemma filter_takeWhile_same: "filter P (takeWhile P xs) = takeWhile P xs"
  by (induction xs) auto

lemma concat_wordsOf: "concat (wordsOf s) = filter (\<lambda>x. \<not> isBreakingSpace x) s"
proof (induction s rule: wordsOf.induct)
  case 1
  show ?case by simp
next
  case (2 c cs)
  let ?P = "\<lambda>x. \<not> isBreakingSpace x"
  have "filter ?P cs = filter ?P (takeWhile ?P cs @ dropWhile ?P cs)"
    by simp
  also have "\<dots> = takeWhile ?P cs @ filter ?P (dropWhile ?P cs)"
    by (simp only: filter_append filter_takeWhile_same)
  finally have split: "filter ?P cs = takeWhile ?P cs @ filter ?P (dropWhile ?P cs)" .
  show ?case
  proof (cases "isBreakingSpace c")
    case True
    with 2 show ?thesis by simp
  next
    case False
    with 2(2) [OF False] split show ?thesis by simp
  qed
qed

lemma hd_joinWithSpace: "w \<noteq> [] \<Longrightarrow> hd (joinWithSpace (w # ws)) = hd w"
  by (simp add: joinWithSpace_Cons)

lemma joinWithSpace_empty: "w \<noteq> [] \<Longrightarrow> joinWithSpace (w # ws) \<noteq> []"
  by (simp add: joinWithSpace_Cons)

lemma last_joinWithSpace:
  "ws \<noteq> [] \<Longrightarrow> \<forall>w \<in> set ws. w \<noteq> [] \<Longrightarrow> last (joinWithSpace ws) = last (last ws)"
proof (induction ws rule: joinWithSpace.induct)
  case 1
  then show ?case by simp
next
  case (2 w)
  then show ?case by simp
next
  case (3 w v ws)
  then have "joinWithSpace (v # ws) \<noteq> []"
    using joinWithSpace_empty [of v ws] by simp
  with 3 show ?case by simp
qed

lemma collapseBreakingSpaces_ends:
  assumes "collapseBreakingSpaces s \<noteq> []"
  shows "\<not> isBreakingSpace (hd (collapseBreakingSpaces s))
         \<and> \<not> isBreakingSpace (last (collapseBreakingSpaces s))"
proof -
  have ne: "\<forall>w \<in> set (wordsOf s). w \<noteq> []"
    using wordsOf_words by blast
  from assms have "wordsOf s \<noteq> []"
    by (auto simp: collapseBreakingSpaces_words)
  then obtain w ws where ws: "wordsOf s = w # ws" by (cases "wordsOf s") auto
  have "w \<in> set (wordsOf s)" "last (wordsOf s) \<in> set (wordsOf s)"
    using ws last_in_set [OF \<open>wordsOf s \<noteq> []\<close>] by simp_all
  then have "\<not> isBreakingSpace (hd w)" "\<not> isBreakingSpace (last (last (wordsOf s)))"
    using wordsOf_words by (metis hd_in_set, metis last_in_set)
  moreover have "hd (collapseBreakingSpaces s) = hd w"
    using ne ws by (simp add: collapseBreakingSpaces_words hd_joinWithSpace)
  moreover have "last (collapseBreakingSpaces s) = last (last (wordsOf s))"
    using last_joinWithSpace [OF \<open>wordsOf s \<noteq> []\<close> ne]
    by (simp add: collapseBreakingSpaces_words)
  ultimately show ?thesis by simp
qed

lemma set_joinWithSpace: "set (joinWithSpace ws) \<subseteq> \<Union> (set ` set ws) \<union> {32}"
  by (induction ws rule: joinWithSpace.induct) auto

lemma replaceRuns_joinWithSpace:
  "\<forall>w \<in> set ws. w \<noteq> [] \<and> (\<forall>x \<in> set w. \<not> isBreakingSpace x) \<Longrightarrow>
   replaceRuns (joinWithSpace ws) = joinWithSpace ws"
proof (induction ws rule: joinWithSpace.induct)
  case 1
  show ?case by simp
next
  case (2 w)
  then show ?case
    using replaceRuns_word [of w "[]"] by simp
next
  case (3 w v ws)
  then have v: "v \<noteq> []" "\<not> isBreakingSpace (hd v)"
    by simp_all
  then obtain rest where j: "joinWithSpace (v # ws) = hd v # rest"
    by (cases v) (auto simp: joinWithSpace_Cons)
  have "replaceRuns (32 # joinWithSpace (v # ws)) = 32 # replaceRuns (joinWithSpace (v # ws))"
    using v(2) by (simp add: j isBreakingSpace_def)
  then show ?case
    using 3 replaceRuns_word [of w "32 # joinWithSpace (v # ws)"] by simp
qed

section \<open>Facts about the component\<close>

text \<open>
  A string hash is never one of the two sentinels. A write to a surface object goes
  through when the object is an entry of the map or an inherited function, and storing
  what is already stored changes nothing. From these: a call of
  \<open>renderSurfaceContent\<close> with a string whose hash is stored returns the component
  unchanged; with another string it resolves the element, writes the content and stores
  the hash, or throws what \<open>getSurfaceElement\<close> throws.
\<close>

lemma hashCode_snoc: "hashCode (val @ [c]) = hashStep (hashCode val) c"
  by (simp add: hashCode_def)

lemma hashCode_range: "0 \<le> hashCode val \<and> hashCode val < 4294967296"
proof (induction val rule: rev_induct)
  case Nil
  show ?case by (simp add: hashCode_def)
next
  case (snoc c val)
  show ?case by (simp add: hashCode_snoc hashStep_def)
qed

lemma hashCode_not_sentinel:
  "hashCode val \<noteq> NOT_INITIALIZED" "hashCode val \<noteq> NOT_CACHEABLE"
  using hashCode_range [of val] by (simp_all add: NOT_INITIALIZED_def NOT_CACHEABLE_def)

lemma map_of_update_same: "map_of al k = Some v \<Longrightarrow> AList.update k v al = al"
  by (induction al) (auto split: if_splits)

lemma proto_not_function: "''__proto__'' \<notin> set objectPrototypeFunctions"
  by (simp add: objectPrototypeFunctions_def)

lemma getSurface_assignable:
  assumes "getSurface c surfaceId = Some s" and "s \<noteq> blankSurface"
  shows "assignable c surfaceId"
  using assms
  by (auto simp: getSurface_def inheritedSurface_def assignable_def
      split: option.splits if_splits)

lemma putSurface_assignable:
  assumes "assignable c surfaceId"
  shows "\<exists>c1. putSurface c surfaceId s = Ok c1
           \<and> getSurface c1 surfaceId = Some s
           \<and> trace c1 = trace c \<and> document c1 = document c
           \<and> surfacesRenderAttrs c1 = surfacesRenderAttrs c
           \<and> assignable c1 surfaceId"
  using assms proto_not_function
  by (auto simp: putSurface_def assignable_def getSurface_def inheritedSurface_def update_conv'
      split: option.splits)

lemma putSurface_Ok:
  assumes "putSurface c surfaceId s = Ok c1"
  shows "getSurface c1 surfaceId = Some s \<and> trace c1 = trace c \<and> document c1 = document c
         \<and> assignable c1 surfaceId"
  using assms proto_not_function
  by (auto simp: putSurface_def assignable_def getSurface_def inheritedSurface_def update_conv'
      split: option.splits if_splits)

lemma putSurface_same:
  assumes "getSurface c surfaceId = Some s" and "s \<noteq> blankSurface"
  shows "putSurface c surfaceId s = Ok c"
proof (cases "map_of (surfaces c) surfaceId")
  case (Some s0)
  then have "AList.update surfaceId s (surfaces c) = surfaces c"
    using assms(1) by (simp add: getSurface_def map_of_update_same)
  then show ?thesis
    using Some by (simp add: putSurface_def)
next
  case None
  then have i: "inheritedSurface c surfaceId = Some s"
    using assms(1) by (simp add: getSurface_def)
  then have "map_of (inheritedSurfaces c) surfaceId = Some s"
    and f: "surfaceId \<noteq> ''__proto__''" "surfaceId \<in> set objectPrototypeFunctions"
    using assms(2) by (auto simp: inheritedSurface_def split: if_splits option.splits)
  then have "AList.update surfaceId s (inheritedSurfaces c) = inheritedSurfaces c"
    by (simp add: map_of_update_same)
  then show ?thesis
    using None f by (simp add: putSurface_def)
qed

lemma lookupSurfaceElement_frame:
  "lookupSurfaceElement c i = Returns el c1 \<Longrightarrow> c1 = c\<lparr>document := document c1\<rparr>"
  by (auto simp: lookupSurfaceElement_def createSurfaceElement_def
      split: option.splits sum.splits prod.splits)

lemma getSurfaceElement_returns:
  assumes "getSurfaceElement c surfaceId = Returns (Some el) c1"
    and "getSurface c surfaceId = Some s"
  shows "getSurface c1 surfaceId = Some (s\<lparr>surface_element := Some el\<rparr>)
         \<and> trace c1 = trace c \<and> assignable c1 surfaceId"
proof (cases "surface_element s")
  case (Some el')
  then have "el' = el" and "c1 = c"
    using assms by (simp_all add: getSurfaceElement_def)
  moreover have "s \<noteq> blankSurface"
    using Some by (auto simp: blankSurface_def)
  moreover have "s\<lparr>surface_element := Some el\<rparr> = s"
    using Some \<open>el' = el\<close> by simp
  ultimately show ?thesis
    using assms(2) getSurface_assignable [OF assms(2)] by simp
next
  case None
  from assms None obtain c0 where
    l: "lookupSurfaceElement c (makeSurfaceId c surfaceId) = Returns el c0"
    and p: "putSurface c0 surfaceId (s\<lparr>surface_element := Some el\<rparr>) = Ok c1"
    by (auto simp: getSurfaceElement_def split: outcome.splits result.splits)
  define d where "d = document c0"
  have "c0 = c\<lparr>document := d\<rparr>"
    unfolding d_def by (rule lookupSurfaceElement_frame [OF l])
  then have "trace c0 = trace c"
    by simp
  then show ?thesis
    using putSurface_Ok [OF p] by simp
qed


lemma getSurface_frame:
  assumes "surfaces c1 = surfaces c" and "inheritedSurfaces c1 = inheritedSurfaces c"
  shows "getSurface c1 surfaceId = getSurface c surfaceId"
proof -
  have "inheritedSurface c1 surfaceId = inheritedSurface c surfaceId"
    using assms(2) by (simp add: inheritedSurface_def)
  then show ?thesis
    using assms(1) by (simp add: getSurface_def split: option.splits)
qed

lemma storeCacheState_same:
  assumes "getSurface c surfaceId = Some s" and "cacheState s = Some cs"
  shows "storeCacheState c surfaceId cs = Ok c"
proof -
  have "s\<lparr>cacheState := Some cs\<rparr> = s"
    using assms(2) by simp
  moreover have "s \<noteq> blankSurface"
    using assms(2) by (auto simp: blankSurface_def)
  ultimately show ?thesis
    using assms(1) putSurface_same [OF assms(1)] by (simp add: storeCacheState_def)
qed

lemma renderSurfaceContent_absent:
  "\<not> isDefAndNotNull v \<Longrightarrow> renderSurfaceContent c surfaceId v = Ok c"
  by (simp add: renderSurfaceContent_def)

lemma renderSurfaceContent_hit:
  assumes "getSurface c surfaceId = Some s" and "cacheState s = Some (hashCode str)"
  shows "renderSurfaceContent c surfaceId (Str str) = Ok c"
  using assms
  by (simp add: renderSurfaceContent_def Let_def isDefAndNotNull_def computeSurfaceCacheState_def
      hashCode_not_sentinel storeCacheState_same)

lemma renderSurfaceContent_miss:
  assumes "getSurface c surfaceId = Some s"
    and "cacheState s \<noteq> Some (hashCode str)"
    and "getSurfaceElement c surfaceId = Returns (Some el) c0"
  shows "\<exists>c2. renderSurfaceContent c surfaceId (Str str) = Ok c2
           \<and> getSurface c2 surfaceId =
               Some (s\<lparr>surface_element := Some el, cacheState := Some (hashCode str)\<rparr>)
           \<and> trace c2 = trace c @ [DomRemoveChildren el, DomAppend el (Str str)]
           \<and> childNodes (nodes (document c2) el) = [ChildContent (Str str)]"
proof -
  let ?c1 = "c0\<lparr>document := dom_append (dom_removeChildren (document c0) el) el (Str str),
                trace := trace c0 @ [DomRemoveChildren el, DomAppend el (Str str)]\<rparr>"
  from getSurfaceElement_returns [OF assms(3) assms(1)] have
    s0: "getSurface c0 surfaceId = Some (s\<lparr>surface_element := Some el\<rparr>)"
    and t0: "trace c0 = trace c" and a0: "assignable c0 surfaceId"
    by simp_all
  have r: "rerenderSurface c surfaceId (Str str) = Ok ?c1"
    by (simp add: rerenderSurface_def assms(3))
  have s1: "getSurface ?c1 surfaceId = Some (s\<lparr>surface_element := Some el\<rparr>)"
    using s0 getSurface_frame [of ?c1 c0 surfaceId] by simp
  have a1: "assignable ?c1 surfaceId"
    using a0 by (simp add: assignable_def)
  from putSurface_assignable [OF a1] obtain c2 where
    p: "putSurface ?c1 surfaceId
          (s\<lparr>surface_element := Some el, cacheState := Some (hashCode str)\<rparr>) = Ok c2"
    and s2: "getSurface c2 surfaceId =
               Some (s\<lparr>surface_element := Some el, cacheState := Some (hashCode str)\<rparr>)"
    and t2: "trace c2 = trace ?c1" and d2: "document c2 = document ?c1"
    by blast
  have "storeCacheState ?c1 surfaceId (hashCode str) = Ok c2"
    using s1 p by (simp add: storeCacheState_def)
  then have "renderSurfaceContent c surfaceId (Str str) = Ok c2"
    using assms(1,2) r
    by (simp add: renderSurfaceContent_def Let_def isDefAndNotNull_def
        computeSurfaceCacheState_def hashCode_not_sentinel)
  moreover have "childNodes (nodes (document c2) el) = [ChildContent (Str str)]"
    by (simp add: d2 dom_append_def dom_removeChildren_def)
  ultimately show ?thesis
    using s2 t2 t0 by simp
qed

lemma detach_without_parent:
  "parentNode (nodes (document c) (element c)) = None \<Longrightarrow> detach c = Throw TypeError c"
  by (simp add: detach_def)

lemma detach_with_parent:
  "parentNode (nodes (document c) (element c)) = Some p \<Longrightarrow> \<exists>c1. detach c = Ok c1"
  by (simp add: detach_def)

lemma collision_second_call:
  assumes "getSurface c surfaceId = Some s" and "hashCode s1 = hashCode s2"
    and "cacheState s \<noteq> Some (hashCode s1)"
    and "getSurfaceElement c surfaceId = Returns (Some el) c0"
  shows "\<exists>c1. renderSurfaceContent c surfaceId (Str s1) = Ok c1
           \<and> newEvents c (Ok c1) = [DomRemoveChildren el, DomAppend el (Str s1)]
           \<and> map_option surface_element (getSurface c1 surfaceId) = Some (Some el)
           \<and> renderSurfaceContent c1 surfaceId (Str s2) = Ok c1
           \<and> newEvents c1 (renderSurfaceContent c1 surfaceId (Str s2)) = []
           \<and> childNodes (nodes (document c1) el) = [ChildContent (Str s1)]"
proof -
  from renderSurfaceContent_miss [OF assms(1,3,4)] obtain c1 where
    r: "renderSurfaceContent c surfaceId (Str s1) = Ok c1"
    and s1: "getSurface c1 surfaceId =
               Some (s\<lparr>surface_element := Some el, cacheState := Some (hashCode s1)\<rparr>)"
    and t1: "trace c1 = trace c @ [DomRemoveChildren el, DomAppend el (Str s1)]"
    and d1: "childNodes (nodes (document c1) el) = [ChildContent (Str s1)]"
    by blast
  have "renderSurfaceContent c1 surfaceId (Str s2) = Ok c1"
    by (rule renderSurfaceContent_hit [OF s1]) (simp add: assms(2))
  then show ?thesis
    using r s1 t1 d1 by (simp add: newEvents_def)
qed

text \<open>
  \<open>removeSurface\<close> and what it calls never write to the render-attribute index, and
  \<open>removeSurface\<close> throws whatever \<open>getSurfaceElement\<close> throws.
\<close>

lemma returnedValue_Returns:
  "returnedValue r = Some v \<Longrightarrow> \<exists>c1. r = Returns v c1"
  by (cases r) auto

lemma lookupSurfaceElement_index:
  "surfacesRenderAttrs (outcomeState (lookupSurfaceElement c i)) = surfacesRenderAttrs c"
  by (auto simp: lookupSurfaceElement_def createSurfaceElement_def
      split: option.splits sum.splits prod.splits)

lemma putSurface_index:
  "surfacesRenderAttrs (resultState (putSurface c surfaceId s)) = surfacesRenderAttrs c"
  by (auto simp: putSurface_def split: option.splits)

lemma getSurfaceElement_index:
  "surfacesRenderAttrs (outcomeState (getSurfaceElement c surfaceId)) = surfacesRenderAttrs c"
proof (cases "getSurface c surfaceId")
  case None
  then show ?thesis by (simp add: getSurfaceElement_def)
next
  case (Some s)
  show ?thesis
  proof (cases "surface_element s")
    case (Some el)
    then show ?thesis using \<open>getSurface c surfaceId = Some s\<close> by (simp add: getSurfaceElement_def)
  next
    case None
    show ?thesis
    proof (cases "lookupSurfaceElement c (makeSurfaceId c surfaceId)")
      case (Returns el c1)
      have "surfacesRenderAttrs c1 = surfacesRenderAttrs c"
        using lookupSurfaceElement_index [of c "makeSurfaceId c surfaceId"] Returns by simp
      moreover have "surfacesRenderAttrs (outcomeState (getSurfaceElement c surfaceId))
          = surfacesRenderAttrs (resultState (putSurface c1 surfaceId (s\<lparr>surface_element := Some el\<rparr>)))"
        using \<open>getSurface c surfaceId = Some s\<close> None Returns
        by (simp add: getSurfaceElement_def split: result.splits)
      ultimately show ?thesis
        by (simp add: putSurface_index)
    next
      case (Throws e c1)
      then show ?thesis
        using \<open>getSurface c surfaceId = Some s\<close> None
          lookupSurfaceElement_index [of c "makeSurfaceId c surfaceId"]
        by (simp add: getSurfaceElement_def)
    next
      case (UnmodelledAt c1)
      then show ?thesis
        using \<open>getSurface c surfaceId = Some s\<close> None
          lookupSurfaceElement_index [of c "makeSurfaceId c surfaceId"]
        by (simp add: getSurfaceElement_def)
    qed
  qed
qed

lemma removeSurface_index:
  "surfacesRenderAttrs (resultState (removeSurface c surfaceId)) = surfacesRenderAttrs c"
  using getSurfaceElement_index [of c surfaceId]
  by (cases "getSurfaceElement c surfaceId")
    (auto simp: removeSurface_def Let_def split: option.splits)

lemma removeSurface_throws:
  "getSurfaceElement c surfaceId = Throws e c1 \<Longrightarrow> removeSurface c surfaceId = Throw e c1"
  by (simp add: removeSurface_def)

lemma getSurfaceElement_throws:
  assumes "getSurface c surfaceId = Some s" and "surface_element s = None"
    and "getElementById (document c) (makeSurfaceId c surfaceId) = None"
    and "querySelectorId (document c) (element c) (makeSurfaceId c surfaceId) = Inl e"
  shows "getSurfaceElement c surfaceId = Throws e c"
  using assms by (simp add: getSurfaceElement_def lookupSurfaceElement_def)

lemma rerenderSurface_throws:
  "getSurfaceElement c surfaceId = Throws e c1 \<Longrightarrow> rerenderSurface c surfaceId v = Throw e c1"
  by (simp add: rerenderSurface_def)

lemma renderSurfaceContent_throws:
  assumes "getSurface c surfaceId = Some s"
    and "cacheState s \<noteq> Some (hashCode str)"
    and "getSurfaceElement c surfaceId = Throws e c1"
  shows "renderSurfaceContent c surfaceId (Str str) = Throw e c1"
  using assms
  by (simp add: renderSurfaceContent_def Let_def isDefAndNotNull_def
      computeSurfaceCacheState_def hashCode_not_sentinel rerenderSurface_throws)

lemma renderSurfaceContent_null_surface:
  assumes "getSurface c surfaceId = None" and "isDefAndNotNull v"
  shows "renderSurfaceContent c surfaceId v = Throw TypeError c"
  using assms
  by (simp add: renderSurfaceContent_def Let_def rerenderSurface_def getSurfaceElement_def)

text \<open>
  A batch whose first attribute has no index entry and whose second has a non-empty one
  makes \<open>object.mixin\<close> write to \<open>undefined\<close>.
\<close>

lemma handleAttributesChanges_throws:
  assumes "inDocument c" and "getModifiedSurfacesFromChanges c chs = Throws e c1"
  shows "handleAttributesChanges c chs = Throw e c1"
  using assms by (simp add: handleAttributesChanges_def)

lemma getModifiedSurfacesFromChanges_undefined_target:
  assumes "map_of (surfacesRenderAttrs c) attr = None"
    and "attr \<notin> set objectPrototypeNames"
    and "map_of (surfacesRenderAttrs c) attr' = Some (k # ks)"
  shows "getModifiedSurfacesFromChanges c [(attr, ch), (attr', ch')] = Throws TypeError c"
  using assms by (simp add: getModifiedSurfacesFromChanges_def object_mixin_def)

text \<open>The definitions that evaluate the model on a given component.\<close>

lemma descendants_numeral:
  "descendants (numeral k) d n =
     concat (map (\<lambda>m. m # descendants (pred_numeral k) d m) (elementsOf (childNodes (nodes d n))))"
  by (simp add: numeral_eq_Suc)

lemmas model_defs =
  isDefAndNotNull_def blankNode_def asciiLetter_def asciiDigit_def asciiLower_def plainTagName_def
  allocateElement_def createElement_def setElemId_def getElementById_def plainIdentifier_def
  matchesIdSelector_def querySelectorId_def removeChild_def insertBefore_def
  dom_removeChildren_def dom_append_def NOT_CACHEABLE_def NOT_INITIALIZED_def callHook_def
  objectPrototypeFunctions_def objectPrototypeNames_def blankSurface_def inheritedSurface_def
  indexValue_def isArrayIndex_def forInOrder_def
  getSurface_def putSurface_def addKey_def cacheSurfaceRenderAttrs_def defaultSurface_def
  addSurface_def makeSurfaceId_def createSurfaceElement_def lookupSurfaceElement_def
  getSurfaceElement_def removeSurface_def object_mixin_def getModifiedSurfacesFromChanges_def
  computeSurfaceCacheState_def getSurfaceContent_protected_def rerenderSurface_def
  storeCacheState_def renderSurfaceContent_def clearSurfacesCache_def fireAttrChange_def
  syncAllChanges_def handleAttributesChanges_def renderElement_def attach_def detach_def
  render_def newEvents_def descendants_numeral js_def hashCode_def hashStep_def Let_def

lemmas example_defs =
  exampleDom_def exampleContent_def exampleComponent_def surfaceWith_def renderedNodes_def

section \<open>Facts about the examples\<close>

lemma Aa_BB: "js ''Aa'' \<noteq> js ''BB''" "hashCode (js ''Aa'') = hashCode (js ''BB'')"
  by (simp_all add: js_def hashCode_def hashStep_def)

lemma collapse_examples:
  "collapseBreakingSpaces [32, 9, 97, 32, 13, 10, 98, 99, 10] = js ''a bc''"
  "wordsOf [32, 9, 97, 32, 13, 10, 98, 99, 10] = wordsOf (js ''a bc'')"
  "wordsOf (js ''a bc'') = [js ''a'', js ''bc'']"
  by code_simp+

text \<open>The example with its two surfaces registered, and after \<open>render\<close>.\<close>

lemma exampleSurfaces_state:
  "exampleSurfaces =
     exampleComponent
       \<lparr>surfaces := [(''a'', surfaceWith [''foo'']), (''b'', surfaceWith [''bar''])],
        surfacesRenderAttrs := [(''foo'', [''a'']), (''bar'', [''b''])]\<rparr>"
  by (simp add: exampleSurfaces_def exampleComponent_def surfaceWith_def addSurface_def
      cacheSurfaceRenderAttrs_def getSurface_def addKey_def objectPrototypeNames_def
      objectPrototypeFunctions_def)

lemma exampleAttached_state:
  "exampleAttached =
     exampleComponent
       \<lparr>inDocument := True,
        surfaces :=
          [(''a'', \<lparr>cacheState = Some 2112, surface_element = Some 3, renderAttrs = [''foo'']\<rparr>),
           (''b'', \<lparr>cacheState = Some 120, surface_element = Some 4, renderAttrs = [''bar'']\<rparr>)],
        surfacesRenderAttrs := [(''foo'', [''a'']), (''bar'', [''b''])],
        document := exampleDom\<lparr>nodes := renderedNodes, nextNode := 5\<rparr>,
        trace :=
          [HookCall RenderInternal, DomRemoveChildren 3, DomAppend 3 (Str (js ''Aa'')),
           DomRemoveChildren 4, DomAppend 4 (Str (js ''x'')),
           SyncCall ''elementClasses'' Undefined Undefined,
           SyncCall ''foo'' Undefined Undefined, DomInsertBefore 1 2 None,
           HookCall Attached]\<rparr>"
  unfolding exampleAttached_def exampleSurfaces_state
  by (simp add: model_defs example_defs fun_eq_iff)

lemma exampleSurfaces_a: "getSurface exampleSurfaces ''a'' = Some (surfaceWith [''foo''])"
  by (simp add: exampleSurfaces_state getSurface_def)

lemma exampleSurfaces_a_element:
  "returnedValue (getSurfaceElement exampleSurfaces ''a'') = Some (Some 3)"
  by (simp add: exampleSurfaces_state model_defs example_defs)

lemma exampleSurfaces_parent:
  "parentNode (nodes (document exampleSurfaces) (element exampleSurfaces)) = None"
  by (simp add: exampleSurfaces_state model_defs example_defs)


lemma exampleAttached_inDocument: "inDocument exampleAttached"
  by (simp add: exampleAttached_state)

lemma exampleAttached_parent:
  "parentNode (nodes (document exampleAttached) (element exampleAttached)) = Some 1"
  by (simp add: exampleAttached_state example_defs)

lemma exampleDetached_facts:
  "parentNode (nodes (document exampleDetached) (element exampleDetached)) = None"
  "\<not> inDocument exampleDetached"
  "newEvents exampleAttached (Ok exampleDetached) = [DomRemoveChild 1 2, HookCall Detached]"
  by (simp_all add: exampleDetached_def exampleAttached_state model_defs example_defs)

text \<open>The example with the id \<open>1c\<close>: the selector \<open>#1c-a\<close> is refused.\<close>

lemma exampleDigitId_a:
  "getSurface exampleDigitId ''a'' = Some (surfaceWith [''foo''])"
  "getElementById (document exampleDigitId) (makeSurfaceId exampleDigitId ''a'') = None"
  "querySelectorId (document exampleDigitId) (element exampleDigitId)
     (makeSurfaceId exampleDigitId ''a'') = Inl SyntaxError"
  by (simp_all add: exampleDigitId_def exampleSurfaces_state model_defs example_defs)

lemma exampleDigitId_throws:
  "getSurfaceElement exampleDigitId ''a'' = Throws SyntaxError exampleDigitId"
  by (rule getSurfaceElement_throws [OF exampleDigitId_a(1) _ exampleDigitId_a(2,3)])
    (simp add: surfaceWith_def)

lemma exampleDigitId_removeSurface:
  "removeSurface exampleDigitId ''a'' = Throw SyntaxError exampleDigitId"
  by (rule removeSurface_throws [OF exampleDigitId_throws])

lemma exampleDigitId_renderSurfaceContent:
  "renderSurfaceContent exampleDigitId ''a'' (Str (js ''X'')) = Throw SyntaxError exampleDigitId"
  by (rule renderSurfaceContent_throws [OF exampleDigitId_a(1) _ exampleDigitId_throws])
    (simp add: surfaceWith_def)

lemma exampleDigitId_toString:
  "outcomeError (getSurfaceElement exampleDigitId ''toString'') = Some SyntaxError"
  by (simp add: exampleDigitId_def exampleSurfaces_state model_defs example_defs)

text \<open>Names that the surfaces map inherits, on the example.\<close>

lemma exampleSurfaces_toString:
  "map_of (surfaces exampleSurfaces) ''toString'' = None"
  "returnedValue (getSurfaceElement exampleSurfaces ''toString'') = Some (Some 3)"
  "returns (removeSurface exampleSurfaces ''toString'')"
  "returnedValue (getSurfaceElement (resultState (removeSurface exampleSurfaces ''toString''))
     ''toString'') = Some (Some 3)"
  by (simp_all add: exampleSurfaces_state model_defs example_defs)

lemma exampleSurfaces_valueOf:
  "map_of (surfaces exampleSurfaces) ''valueOf'' = None"
  "returns (renderSurfaceContent exampleSurfaces ''valueOf'' (Str (js ''X'')))"
  "newEvents exampleSurfaces (renderSurfaceContent exampleSurfaces ''valueOf'' (Str (js ''X'')))
     = [DomRemoveChildren 3, DomAppend 3 (Str (js ''X''))]"
  "childNodes (nodes (document (resultState
       (renderSurfaceContent exampleSurfaces ''valueOf'' (Str (js ''X''))))) 3)
     = [ChildContent (Str (js ''X''))]"
  by (simp_all add: exampleSurfaces_state model_defs example_defs)

lemma exampleSurfaces_header:
  "getSurface exampleSurfaces ''header'' = None"
  "returnedValue (getSurfaceElement exampleSurfaces ''header'') = Some None"
  by (simp_all add: exampleSurfaces_state model_defs example_defs)

lemma exampleSurfaces_remove_a:
  "returns (removeSurface exampleSurfaces ''a'')"
  "getSurface (resultState (removeSurface exampleSurfaces ''a'')) ''a'' = None"
  "returnedValue (getSurfaceElement (resultState (removeSurface exampleSurfaces ''a'')) ''a'')
     = Some None"
  "surfacesRenderAttrs (resultState (removeSurface exampleSurfaces ''a''))
     = [(''foo'', [''a'']), (''bar'', [''b''])]"
  by (simp_all add: exampleSurfaces_state model_defs example_defs)

text \<open>Batches of attribute changes on the rendered example.\<close>

lemma exampleChanged_index:
  "inDocument exampleChanged"
  "surfacesRenderAttrs exampleChanged = [(''foo'', [''a'']), (''bar'', [''b''])]"
  "map_option renderAttrs (getSurface exampleChanged ''a'') = Some [''foo'']"
  "map_option renderAttrs (getSurface exampleChanged ''b'') = Some [''bar'']"
  by (simp_all add: exampleChanged_def exampleAttached_state getSurface_def)

lemma exampleChanged_unindexed_first:
  "handleAttributesChanges exampleChanged
     [(''baz'', Some (Obj 5, Obj 6)), (''foo'', Some (Obj 7, Obj 8))]
   = Throw TypeError exampleChanged"
  by (rule handleAttributesChanges_throws [OF exampleChanged_index(1)
        getModifiedSurfacesFromChanges_undefined_target])
    (simp_all add: exampleChanged_index(2) objectPrototypeNames_def objectPrototypeFunctions_def)

lemma exampleChanged_batches:
  "newEvents exampleChanged (handleAttributesChanges exampleChanged [(''foo'', Some (Obj 7, Obj 8))])
     = [DomRemoveChildren 3, DomAppend 3 (Str (js ''new'')), SyncCall ''foo'' (Obj 7) (Obj 8)]"
  "newEvents exampleChanged
      (handleAttributesChanges exampleChanged
         [(''foo'', Some (Obj 7, Obj 8)), (''bar'', Some (Obj 3, Obj 4))])
     = [DomRemoveChildren 3, DomAppend 3 (Str (js ''new'')),
        DomRemoveChildren 4, DomAppend 4 (Str (js ''new'')), SyncCall ''foo'' (Obj 7) (Obj 8)]"
  by (simp_all add: exampleChanged_def exampleAttached_state model_defs example_defs)

lemma exampleChangedAgain_batch:
  "inDocument exampleChangedAgain"
  "surfacesRenderAttrs exampleChangedAgain = [(''foo'', [''a'', ''b'']), (''bar'', [''b''])]"
  "map_option renderAttrs (getSurface exampleChangedAgain ''b'') = Some [''bar'']"
  "newEvents exampleChangedAgain
      (handleAttributesChanges exampleChangedAgain [(''foo'', Some (Obj 7, Obj 8))])
     = [DomRemoveChildren 3, DomAppend 3 (Str (js ''newer'')),
        DomRemoveChildren 4, DomAppend 4 (Str (js ''newer'')), SyncCall ''foo'' (Obj 7) (Obj 8)]"
  by (simp_all add: exampleChangedAgain_def exampleChanged_def exampleAttached_state
      model_defs example_defs)

section \<open>The claims\<close>




text \<open>
  C2, evaluated where it fails. The strings \<open>Aa\<close> and \<open>BB\<close> differ and have the same
  hash (2112). After \<open>renderSurfaceContent\<close> with \<open>Aa\<close> has written to the surface
  element, the call with \<open>BB\<close> writes nothing: the component is returned unchanged
  and the element still holds \<open>Aa\<close>.
\<close>

theorem colliding_strings_suppress_rerender:
  "js ''Aa'' \<noteq> js ''BB''
   \<and> (\<exists>c1 el. renderSurfaceContent exampleSurfaces ''a'' (Str (js ''Aa'')) = Ok c1
         \<and> newEvents exampleSurfaces (Ok c1) = [DomRemoveChildren el, DomAppend el (Str (js ''Aa''))]
         \<and> map_option surface_element (getSurface c1 ''a'') = Some (Some el)
         \<and> renderSurfaceContent c1 ''a'' (Str (js ''BB'')) = Ok c1
         \<and> newEvents c1 (renderSurfaceContent c1 ''a'' (Str (js ''BB''))) = []
         \<and> childNodes (nodes (document c1) el) = [ChildContent (Str (js ''Aa''))])"
proof -
  from returnedValue_Returns [OF exampleSurfaces_a_element] obtain c0 where
    g: "getSurfaceElement exampleSurfaces ''a'' = Returns (Some 3) c0"
    by blast
  have "cacheState (surfaceWith [''foo'']) \<noteq> Some (hashCode (js ''Aa''))"
    by (simp add: surfaceWith_def)
  from collision_second_call [OF exampleSurfaces_a Aa_BB(2) this g] show ?thesis
    using Aa_BB(1) by blast
qed

text \<open>
  C3, evaluated where it fails. \<open>getModifiedSurfacesFromChanges_\<close> hands the index
  entries themselves to \<open>object.mixin\<close>, so the entry of the first changed attribute
  is the target of the merge. On the rendered example, whose index maps \<open>foo\<close> to
  \<open>a\<close> and \<open>bar\<close> to \<open>b\<close>:

  \<^item> a batch that changes \<open>baz\<close>, which no surface depends on, and then \<open>foo\<close> throws
    a \<open>TypeError\<close>: surface \<open>a\<close> is not re-rendered and \<open>syncFoo\<close> is not called;

  \<^item> a batch that changes \<open>foo\<close> and \<open>bar\<close> re-renders \<open>a\<close> and \<open>b\<close>, but it also
    writes \<open>b\<close> into the index entry of \<open>foo\<close>;

  \<^item> from then on a batch that changes \<open>foo\<close> alone re-renders \<open>b\<close> too, whose
    \<open>renderAttrs\<close> is \<open>['bar']\<close>.

  A batch that changes \<open>foo\<close> alone on the rendered example does what the claim says.
\<close>

theorem handleAttributesChanges_merges_into_index_entry:
  "inDocument exampleChanged
   \<and> surfacesRenderAttrs exampleChanged = [(''foo'', [''a'']), (''bar'', [''b''])]
   \<and> map_option renderAttrs (getSurface exampleChanged ''a'') = Some [''foo'']
   \<and> map_option renderAttrs (getSurface exampleChanged ''b'') = Some [''bar'']
   \<and> newEvents exampleChanged
        (handleAttributesChanges exampleChanged [(''foo'', Some (Obj 7, Obj 8))])
       = [DomRemoveChildren 3, DomAppend 3 (Str (js ''new'')), SyncCall ''foo'' (Obj 7) (Obj 8)]
   \<and> handleAttributesChanges exampleChanged
        [(''baz'', Some (Obj 5, Obj 6)), (''foo'', Some (Obj 7, Obj 8))]
       = Throw TypeError exampleChanged
   \<and> newEvents exampleChanged
        (handleAttributesChanges exampleChanged
           [(''baz'', Some (Obj 5, Obj 6)), (''foo'', Some (Obj 7, Obj 8))]) = []
   \<and> newEvents exampleChanged
        (handleAttributesChanges exampleChanged
           [(''foo'', Some (Obj 7, Obj 8)), (''bar'', Some (Obj 3, Obj 4))])
       = [DomRemoveChildren 3, DomAppend 3 (Str (js ''new'')),
          DomRemoveChildren 4, DomAppend 4 (Str (js ''new'')), SyncCall ''foo'' (Obj 7) (Obj 8)]
   \<and> inDocument exampleChangedAgain
   \<and> surfacesRenderAttrs exampleChangedAgain = [(''foo'', [''a'', ''b'']), (''bar'', [''b''])]
   \<and> map_option renderAttrs (getSurface exampleChangedAgain ''b'') = Some [''bar'']
   \<and> newEvents exampleChangedAgain
        (handleAttributesChanges exampleChangedAgain [(''foo'', Some (Obj 7, Obj 8))])
       = [DomRemoveChildren 3, DomAppend 3 (Str (js ''newer'')),
          DomRemoveChildren 4, DomAppend 4 (Str (js ''newer'')), SyncCall ''foo'' (Obj 7) (Obj 8)]"
  using exampleChanged_index exampleChanged_batches exampleChangedAgain_batch
  by (simp add: exampleChanged_unindexed_first newEvents_def)

text \<open>
  C4. On a component whose \<open>inDocument\<close> flag is set, \<open>render\<close> and \<open>decorate\<close>
  throw the error \<open>Component already rendered\<close>, and the state at the throw is the
  state before the call: surfaces, cache states, index, document and flag.
\<close>

theorem render_decorate_already_rendered:
  assumes "inDocument c"
  shows "render c opt_parentElement opt_siblingElement = Throw ALREADY_RENDERED c
         \<and> decorate innerHTML c = Throw ALREADY_RENDERED c"
  using assms by (simp add: render_def decorate_def)

text \<open>C4 on the rendered example.\<close>

theorem render_decorate_already_rendered_witness:
  "inDocument exampleAttached
   \<and> render exampleAttached None None = Throw ALREADY_RENDERED exampleAttached
   \<and> decorate (\<lambda>d el. []) exampleAttached = Throw ALREADY_RENDERED exampleAttached"
  using render_decorate_already_rendered [OF exampleAttached_inDocument] exampleAttached_inDocument
  by simp

text \<open>
  C5, evaluated where it fails. \<open>detach\<close> on the rendered example removes the root
  element from the body, clears \<open>inDocument\<close> and calls the \<open>detached\<close> hook. The
  root element then has no parent, and a second \<open>detach\<close> throws a \<open>TypeError\<close>
  (\<open>removeChild\<close> is read from a null \<open>parentNode\<close>), calls no hook and changes
  nothing. So does \<open>detach\<close> on a component that was never attached.
\<close>

theorem detach_twice_throws:
  "detach exampleAttached = Ok exampleDetached
   \<and> newEvents exampleAttached (detach exampleAttached) = [DomRemoveChild 1 2, HookCall Detached]
   \<and> \<not> inDocument exampleDetached
   \<and> parentNode (nodes (document exampleDetached) (element exampleDetached)) = None
   \<and> detach exampleDetached = Throw TypeError exampleDetached
   \<and> newEvents exampleDetached (detach exampleDetached) = []
   \<and> detach exampleSurfaces = Throw TypeError exampleSurfaces"
proof -
  from detach_with_parent [OF exampleAttached_parent] obtain c1 where
    "detach exampleAttached = Ok c1" by blast
  then have "detach exampleAttached = Ok exampleDetached"
    by (simp add: exampleDetached_def)
  then show ?thesis
    using exampleDetached_facts detach_without_parent [OF exampleDetached_facts(1)]
      detach_without_parent [OF exampleSurfaces_parent]
    by (simp add: newEvents_def)
qed

text \<open>
  C6. \<open>string.collapseBreakingSpaces\<close> returns the words of its argument (the maximal
  runs of characters other than tab, carriage return, newline and space, which are kept
  in order) joined by single spaces. So every breaking space of the result is a space,
  every run of them has length one (replacing runs again changes nothing), and the
  result neither starts nor ends with a breaking space. Two strings with the same words,
  that is, strings that differ in their runs of breaking spaces only, have the same
  normal form, hence the same hash and the same cache state.
\<close>

theorem collapseBreakingSpaces_normal_form:
  "collapseBreakingSpaces s = joinWithSpace (wordsOf s)
   \<and> (\<forall>w \<in> set (wordsOf s). w \<noteq> [] \<and> (\<forall>x \<in> set w. \<not> isBreakingSpace x))
   \<and> concat (wordsOf s) = filter (\<lambda>x. \<not> isBreakingSpace x) s
   \<and> (\<forall>x \<in> set (collapseBreakingSpaces s). isBreakingSpace x \<longrightarrow> x = 32)
   \<and> replaceRuns (collapseBreakingSpaces s) = collapseBreakingSpaces s
   \<and> (collapseBreakingSpaces s \<noteq> [] \<longrightarrow>
        \<not> isBreakingSpace (hd (collapseBreakingSpaces s))
        \<and> \<not> isBreakingSpace (last (collapseBreakingSpaces s)))
   \<and> (wordsOf s = wordsOf t \<longrightarrow>
        collapseBreakingSpaces s = collapseBreakingSpaces t
        \<and> hashCode (collapseBreakingSpaces s) = hashCode (collapseBreakingSpaces t)
        \<and> computeSurfaceCacheState (Str (collapseBreakingSpaces s))
            = computeSurfaceCacheState (Str (collapseBreakingSpaces t)))"
proof -
  have words: "\<forall>w \<in> set (wordsOf s). w \<noteq> [] \<and> (\<forall>x \<in> set w. \<not> isBreakingSpace x)"
    using wordsOf_words by blast
  have "\<forall>x \<in> set (collapseBreakingSpaces s). isBreakingSpace x \<longrightarrow> x = 32"
    using set_joinWithSpace [of "wordsOf s"] words
    unfolding collapseBreakingSpaces_words by auto
  moreover have "replaceRuns (collapseBreakingSpaces s) = collapseBreakingSpaces s"
    unfolding collapseBreakingSpaces_words by (rule replaceRuns_joinWithSpace [OF words])
  moreover have "wordsOf s = wordsOf t \<longrightarrow> collapseBreakingSpaces s = collapseBreakingSpaces t"
    by (simp add: collapseBreakingSpaces_words)
  ultimately show ?thesis
    using words collapseBreakingSpaces_words [of s] concat_wordsOf [of s]
      collapseBreakingSpaces_ends [of s]
    by (auto simp: computeSurfaceCacheState_def)
qed

text \<open>C6 on a string with leading, inner and trailing runs, and its normal form.\<close>

theorem collapseBreakingSpaces_normal_form_witness:
  "wordsOf [32, 9, 97, 32, 13, 10, 98, 99, 10] = wordsOf (js ''a bc'')
   \<and> collapseBreakingSpaces [32, 9, 97, 32, 13, 10, 98, 99, 10] = js ''a bc''
   \<and> collapseBreakingSpaces (js ''a bc'') = js ''a bc''
   \<and> hashCode (collapseBreakingSpaces [32, 9, 97, 32, 13, 10, 98, 99, 10])
       = hashCode (collapseBreakingSpaces (js ''a bc''))
   \<and> \<not> isBreakingSpace (hd (collapseBreakingSpaces [32, 9, 97, 32, 13, 10, 98, 99, 10]))
   \<and> \<not> isBreakingSpace (last (collapseBreakingSpaces [32, 9, 97, 32, 13, 10, 98, 99, 10]))"
proof -
  have ne: "collapseBreakingSpaces [32, 9, 97, 32, 13, 10, 98, 99, 10] \<noteq> []"
    by (simp add: collapse_examples(1) js_def)
  show ?thesis
    using collapseBreakingSpaces_normal_form
      [of "[32, 9, 97, 32, 13, 10, 98, 99, 10]" "js ''a bc''"] collapse_examples(1,2) ne
    by metis
qed

text \<open>
  C7, evaluated where it fails. \<open>getSurface\<close> reads \<open>this.surfaces_[surfaceId]\<close> from
  a plain object, and \<open>getSurfaceElement\<close> reads the element through a selector built
  from the ids.

  \<^item> \<open>toString\<close> was never registered on the example, and yet \<open>getSurfaceElement\<close>
    returns an element for it (it creates node 3); \<open>removeSurface\<close> returns, and
    \<open>getSurfaceElement\<close> still returns that element afterwards.

  \<^item> On the example with the id \<open>1c\<close>, \<open>removeSurface\<close> of the registered surface
    \<open>a\<close> throws a \<open>SyntaxError\<close> and leaves the component as it was, so
    \<open>getSurfaceElement\<close> throws again afterwards; it also throws for \<open>toString\<close>.

  On the example itself the claim holds for \<open>a\<close>, which is registered, and for
  \<open>header\<close>, which is not.
\<close>

theorem getSurfaceElement_of_inherited_name:
  "map_of (surfaces exampleSurfaces) ''toString'' = None
   \<and> returnedValue (getSurfaceElement exampleSurfaces ''toString'') = Some (Some 3)
   \<and> returns (removeSurface exampleSurfaces ''toString'')
   \<and> returnedValue (getSurfaceElement (resultState (removeSurface exampleSurfaces ''toString''))
         ''toString'') = Some (Some 3)
   \<and> getSurface exampleDigitId ''a'' = Some (surfaceWith [''foo''])
   \<and> removeSurface exampleDigitId ''a'' = Throw SyntaxError exampleDigitId
   \<and> getSurfaceElement (resultState (removeSurface exampleDigitId ''a'')) ''a''
       = Throws SyntaxError exampleDigitId
   \<and> outcomeError (getSurfaceElement exampleDigitId ''toString'') = Some SyntaxError
   \<and> returns (removeSurface exampleSurfaces ''a'')
   \<and> returnedValue (getSurfaceElement (resultState (removeSurface exampleSurfaces ''a'')) ''a'')
       = Some None
   \<and> returnedValue (getSurfaceElement exampleSurfaces ''header'') = Some None"
  using exampleSurfaces_toString exampleDigitId_a(1) exampleDigitId_toString
    exampleSurfaces_remove_a(1,3) exampleSurfaces_header(2)
  by (simp add: exampleDigitId_removeSurface exampleDigitId_throws)

text \<open>
  C8, evaluated where it fails. \<open>removeSurface\<close> never writes to the render-attribute
  index: whatever the component and the id, and whether the call returns or throws, the
  index afterwards is the index before. But \<open>removeSurface\<close> resolves the surface
  element before it deletes the entry. On the example with the id \<open>1c\<close>, where
  surface \<open>a\<close> is registered, the call throws a \<open>SyntaxError\<close> from
  \<open>querySelector\<close> and the entry of \<open>a\<close> is still there. On the example itself
  the entry of \<open>a\<close> is deleted and the index still maps \<open>foo\<close> to \<open>a\<close>.
\<close>

theorem removeSurface_throws_before_delete:
  "surfacesRenderAttrs (resultState (removeSurface c surfaceId)) = surfacesRenderAttrs c
   \<and> getSurface exampleDigitId ''a'' = Some (surfaceWith [''foo''])
   \<and> removeSurface exampleDigitId ''a'' = Throw SyntaxError exampleDigitId
   \<and> getSurface (resultState (removeSurface exampleDigitId ''a'')) ''a''
       = Some (surfaceWith [''foo''])
   \<and> getSurface exampleSurfaces ''a'' = Some (surfaceWith [''foo''])
   \<and> returns (removeSurface exampleSurfaces ''a'')
   \<and> getSurface (resultState (removeSurface exampleSurfaces ''a'')) ''a'' = None
   \<and> surfacesRenderAttrs (resultState (removeSurface exampleSurfaces ''a''))
       = [(''foo'', [''a'']), (''bar'', [''b''])]"
  using removeSurface_index [of c surfaceId] exampleDigitId_a(1) exampleSurfaces_a
    exampleSurfaces_remove_a(1,2,4)
  by (simp add: exampleDigitId_removeSurface)

text \<open>
  C9. \<open>renderSurfaceContent\<close> with content \<open>undefined\<close> or \<open>null\<close> does nothing,
  for every surface id, registered or not: the component is returned as it was, no
  event is added and the stored \<open>cacheState\<close> of the surface is what it was.
\<close>

theorem renderSurfaceContent_absent_content:
  "renderSurfaceContent c surfaceId Undefined = Ok c
   \<and> renderSurfaceContent c surfaceId Null = Ok c
   \<and> newEvents c (renderSurfaceContent c surfaceId Undefined) = []
   \<and> newEvents c (renderSurfaceContent c surfaceId Null) = []
   \<and> getSurface (resultState (renderSurfaceContent c surfaceId Undefined)) surfaceId
       = getSurface c surfaceId
   \<and> getSurface (resultState (renderSurfaceContent c surfaceId Null)) surfaceId
       = getSurface c surfaceId"
  by (simp add: renderSurfaceContent_absent isDefAndNotNull_def newEvents_def)


text \<open>
  C10, evaluated where it fails. \<open>valueOf\<close> is not in the surfaces map of the
  example, and yet \<open>renderSurfaceContent\<close> with the string \<open>X\<close> returns: the lookup
  finds the function that every object inherits, an element is created for it (node 3)
  and the content is written there. And a registered surface is not enough for the call
  to return: on the example with the id \<open>1c\<close> the call for surface \<open>a\<close> throws a
  \<open>SyntaxError\<close> and leaves the component as it was. For \<open>header\<close>, which is not
  registered and not inherited, the call throws a \<open>TypeError\<close> and leaves the component
  as it was, as the claim says.
\<close>

theorem renderSurfaceContent_of_inherited_name:
  "map_of (surfaces exampleSurfaces) ''valueOf'' = None
   \<and> returns (renderSurfaceContent exampleSurfaces ''valueOf'' (Str (js ''X'')))
   \<and> newEvents exampleSurfaces (renderSurfaceContent exampleSurfaces ''valueOf'' (Str (js ''X'')))
       = [DomRemoveChildren 3, DomAppend 3 (Str (js ''X''))]
   \<and> childNodes (nodes (document (resultState
         (renderSurfaceContent exampleSurfaces ''valueOf'' (Str (js ''X''))))) 3)
       = [ChildContent (Str (js ''X''))]
   \<and> getSurface exampleDigitId ''a'' = Some (surfaceWith [''foo''])
   \<and> renderSurfaceContent exampleDigitId ''a'' (Str (js ''X'')) = Throw SyntaxError exampleDigitId
   \<and> getSurface exampleSurfaces ''header'' = None
   \<and> renderSurfaceContent exampleSurfaces ''header'' (Str (js ''X''))
       = Throw TypeError exampleSurfaces
   \<and> renderSurfaceContent exampleSurfaces ''header'' (Obj 0) = Throw TypeError exampleSurfaces"
  using exampleSurfaces_valueOf exampleDigitId_a(1) exampleSurfaces_header(1)
    renderSurfaceContent_null_surface [OF exampleSurfaces_header(1), of "Str (js ''X'')"]
    renderSurfaceContent_null_surface [OF exampleSurfaces_header(1), of "Obj 0"]
  by (simp add: exampleDigitId_renderSurfaceContent isDefAndNotNull_def)

end
